theory Spec2Isabelle
  imports Main "HOL-Library.AList"
begin

section \<open>JavaScript values\<close>

text \<open>
  The webhook payload is the result of \<open>JSON.parse\<close>: an untyped tree of objects, arrays,
  strings, numbers, booleans and \<open>null\<close>. The model below is what \<open>src/mapping.js\<close>
  computes on such trees.

  \<^item> A JavaScript string is a sequence of UTF-16 code units; \<open>length\<close>, \<open>substring\<close>
    and \<open>startsWith\<close> count code units. Strings are therefore lists of code units (as
    naturals), not byte strings; the Cyrillic literals of the source are written out as
    their code units.
  \<^item> Numbers are the integers, \<open>NaN\<close> and the two infinities. The model computes itself
    on the integers of magnitude below \<open>2^53\<close>, where the arithmetic of the program
    (division by 60000 and 1000 under \<open>Math.floor\<close>, remainder by 60000, \<open>parseInt\<close>,
    printing) is exact in double precision; from \<open>2^53\<close> on, what a number rounds to and
    how it prints is asked of the host. Fractions and the negative zero are outside the
    model.
  \<^item> An object is an association list; the first binding of a key is the property.
  \<^item> A property read finds the own properties (with \<open>length\<close> and the indices of strings
    and arrays) and, failing that, what the prototype chain of the runtime holds;
    the chain is asked of the host. The functions and prototype objects it yields are
    values \<open>JHost\<close>, known only through the host. \<open>JSON.parse\<close> builds none of them.
\<close>

type_synonym jsstring = "nat list"

definition ascii :: "string \<Rightarrow> jsstring" where
  "ascii s = map of_char s"

datatype jsnum = NaN | PosInf | NegInf | Num int

datatype jsval =
    JUndefined
  | JNull
  | JBool bool
  | JNum jsnum
  | JStr jsstring
  | JArr "jsval list"
  | JObj "(jsstring \<times> jsval) list"
  | JHost nat

text \<open>The exceptions the program can raise are the engine's \<open>TypeError\<close>s: reading a
  property of \<open>null\<close> or \<open>undefined\<close>, calling something that is not a function,
  converting an object that has no usable \<open>toString\<close>, and an accessor of the runtime
  that refuses to be read.\<close>

datatype exn = TypeError

text \<open>ToBoolean.\<close>

fun truthy :: "jsval \<Rightarrow> bool" where
  "truthy JUndefined = False"
| "truthy JNull = False"
| "truthy (JBool b) = b"
| "truthy (JNum NaN) = False"
| "truthy (JNum PosInf) = True"
| "truthy (JNum NegInf) = True"
| "truthy (JNum (Num n)) = (n \<noteq> 0)"
| "truthy (JStr s) = (s \<noteq> [])"
| "truthy (JArr xs) = True"
| "truthy (JObj kvs) = True"
| "truthy (JHost h) = True"

section \<open>The host\<close>

text \<open>What a property found on the prototype chain holds: a primitive value or an object
  of the runtime.\<close>

datatype hostval =
    HostUndefined
  | HostNull
  | HostBool bool
  | HostNum jsnum
  | HostStr jsstring
  | HostObject nat

fun of_hostval :: "hostval \<Rightarrow> jsval" where
  "of_hostval HostUndefined = JUndefined"
| "of_hostval HostNull = JNull"
| "of_hostval (HostBool b) = JBool b"
| "of_hostval (HostNum n) = JNum n"
| "of_hostval (HostStr s) = JStr s"
| "of_hostval (HostObject h) = JHost h"

text \<open>
  What the program reads from its runtime and does not define:
  \<^item> \<open>env_at_load\<close>: \<open>process.env\<close> when \<open>mapping.js\<close> is loaded. The servers require
    the module before they call \<open>dotenv.config()\<close>, so the static values of the lead
    mapping are read from the environment as the process received it;
  \<^item> \<open>env\<close>: \<open>process.env\<close> when a delivery is handled, after \<open>dotenv.config()\<close>;
  \<^item> \<open>inherited\<close>: what reading a property gives when the value has no own property of
    that name: the value found on the prototype chain, \<open>undefined\<close>, or the exception
    of an accessor that throws;
  \<^item> \<open>hostToString\<close>: the conversion to a string of an object of the runtime;
  \<^item> \<open>strToNumber\<close>: the conversion of a string to a number (\<open>Number(s)\<close>);
  \<^item> \<open>dateParse\<close>: \<open>Date.parse\<close>, the time value of a date string in milliseconds;
  \<^item> \<open>urlParses\<close>: whether \<open>new URL(s)\<close> succeeds;
  \<^item> \<open>bigInt\<close>: the number an integer of magnitude \<open>2^53\<close> or more rounds to;
  \<^item> \<open>bigToString\<close>: how a number of that magnitude prints;
  \<^item> \<open>bigFloorDiv\<close>: \<open>Math.floor(x / d)\<close> for a number of that magnitude.
\<close>

record host =
  env_at_load :: "jsstring \<Rightarrow> jsstring option"
  env :: "jsstring \<Rightarrow> jsstring option"
  inherited :: "jsval \<Rightarrow> jsstring \<Rightarrow> exn + hostval"
  hostToString :: "nat \<Rightarrow> exn + jsstring"
  strToNumber :: "jsstring \<Rightarrow> jsnum"
  dateParse :: "jsstring \<Rightarrow> jsnum"
  urlParses :: "jsstring \<Rightarrow> bool"
  bigInt :: "int \<Rightarrow> jsnum"
  bigToString :: "int \<Rightarrow> jsstring"
  bigFloorDiv :: "int \<Rightarrow> int \<Rightarrow> jsnum"

text \<open>The integers on which the model computes itself.\<close>

definition safe :: "int \<Rightarrow> bool" where
  "safe n = (\<bar>n\<bar> < 9007199254740992)"

definition number_of_int :: "host \<Rightarrow> int \<Rightarrow> jsnum" where
  "number_of_int H n = (if safe n then Num n else bigInt H n)"

section \<open>Property access\<close>

definition is_digit :: "nat \<Rightarrow> bool" where
  "is_digit c = (48 \<le> c \<and> c \<le> 57)"

definition dec_value :: "jsstring \<Rightarrow> nat" where
  "dec_value ds = foldl (\<lambda>a c. 10 * a + (c - 48)) 0 ds"

text \<open>A property key is an array index when it is the canonical decimal form of a number.\<close>

definition array_index :: "jsstring \<Rightarrow> nat option" where
  "array_index k =
     (if k \<noteq> [] \<and> list_all is_digit k \<and> (if hd k = 48 then length k = 1 else True)
      then Some (dec_value k) else None)"

fun own_prop :: "jsval \<Rightarrow> jsstring \<Rightarrow> jsval option" where
  "own_prop (JObj kvs) k = map_of kvs k"
| "own_prop (JArr xs) k =
     (if k = ascii ''length'' then Some (JNum (Num (int (length xs))))
      else case array_index k of
             Some i \<Rightarrow> if i < length xs then Some (xs ! i) else None
           | None \<Rightarrow> None)"
| "own_prop (JStr s) k =
     (if k = ascii ''length'' then Some (JNum (Num (int (length s))))
      else case array_index k of
             Some i \<Rightarrow> if i < length s then Some (JStr [s ! i]) else None
           | None \<Rightarrow> None)"
| "own_prop v k = None"

text \<open>The names under which the program reads the webhook. No object of the runtime
  defines any of them, with one exception: a function has the method \<open>call\<close>.\<close>

definition webhook_names :: "jsstring list" where
  "webhook_names =
     [ascii ''call'', ascii ''contact'', ascii ''agreements'', ascii ''client_name'',
      ascii ''phone'', ascii ''price'', ascii ''client_facts'', ascii ''smsText'',
      ascii ''duration'', ascii ''startedAt'', ascii ''recordUrl'', ascii ''historycall'',
      ascii ''agreements_time'', ascii ''dadataPhoneInfo'', ascii ''region'',
      ascii ''additionalFields'', ascii ''company'', ascii ''email'', ascii ''city'']"

fun is_host :: "jsval \<Rightarrow> bool" where
  "is_host (JHost h) = True"
| "is_host v = False"

text \<open>The chain is not consulted where it is known to hold nothing.\<close>

definition off_chain :: "jsval \<Rightarrow> jsstring \<Rightarrow> bool" where
  "off_chain v k =
     (if is_host v \<and> k = ascii ''call'' then False else k \<in> set webhook_names)"

text \<open>\<open>v[k]\<close> on a value that is neither \<open>null\<close> nor \<open>undefined\<close>: the own property, or
  else what the chain gives.\<close>

definition member :: "host \<Rightarrow> jsval \<Rightarrow> jsstring \<Rightarrow> exn + jsval" where
  "member H v k =
     (case own_prop v k of
        Some x \<Rightarrow> Inr x
      | None \<Rightarrow>
          if off_chain v k then Inr JUndefined
          else (case inherited H v k of Inl e \<Rightarrow> Inl e | Inr x \<Rightarrow> Inr (of_hostval x)))"

text \<open>\<open>v[k]\<close>: reading a property of \<open>null\<close> or \<open>undefined\<close> throws.\<close>

definition js_read :: "host \<Rightarrow> jsval \<Rightarrow> jsstring \<Rightarrow> exn + jsval" where
  "js_read H v k = (if v = JUndefined \<or> v = JNull then Inl TypeError else member H v k)"

text \<open>The reads of the transforms are all under names of the webhook, or under
  \<open>length\<close>, which no prototype of the runtime defines for the values that lack it as
  an own property; there the own property decides.
  \<open>v?.k\<close>: the property, \<open>undefined\<close> when it is absent or \<open>v\<close> is nullish.\<close>

definition lookup :: "jsval \<Rightarrow> jsstring \<Rightarrow> jsval" where
  "lookup v k = (case own_prop v k of Some x \<Rightarrow> x | None \<Rightarrow> JUndefined)"

text \<open>\<open>v.k\<close>: as above, but reading a property of \<open>null\<close> or \<open>undefined\<close> throws.\<close>

definition js_get :: "jsval \<Rightarrow> jsstring \<Rightarrow> exn + jsval" where
  "js_get v k = (if v = JUndefined \<or> v = JNull then Inl TypeError else Inr (lookup v k))"

section \<open>The path resolver\<close>

text \<open>\<open>path.split('.')\<close>.\<close>

fun split_on :: "nat \<Rightarrow> jsstring \<Rightarrow> jsstring list" where
  "split_on c [] = [[]]"
| "split_on c (x # xs) =
     (if x = c then [] # split_on c xs
      else case split_on c xs of
             y # ys \<Rightarrow> (x # y) # ys
           | [] \<Rightarrow> [[x]])"

text \<open>The callback of \<open>reduce\<close>:
  \<^verbatim>\<open>current && current[key] !== undefined ? current[key] : null\<close>.
  The accumulator carries an exception once one has been raised.\<close>

definition path_step :: "host \<Rightarrow> exn + jsval \<Rightarrow> jsstring \<Rightarrow> exn + jsval" where
  "path_step H acc key =
     (case acc of
        Inl e \<Rightarrow> Inl e
      | Inr current \<Rightarrow>
          if truthy current then
            (case js_read H current key of
               Inl e \<Rightarrow> Inl e
             | Inr x \<Rightarrow> if x \<noteq> JUndefined then js_read H current key else Inr JNull)
          else Inr JNull)"

definition walk :: "host \<Rightarrow> jsval \<Rightarrow> jsstring list \<Rightarrow> exn + jsval" where
  "walk H obj keys = foldl (path_step H) (Inr obj) keys"

definition getValueByPath :: "host \<Rightarrow> jsval \<Rightarrow> jsstring \<Rightarrow> exn + jsval" where
  "getValueByPath H obj path =
     (if path = [] \<or> path = ascii ''static'' \<or> path = ascii ''multiple'' then Inr JNull
      else walk H obj (split_on 46 path))"


section \<open>Strings and numbers of the language\<close>

text \<open>White space as \<open>trim\<close> and \<open>parseInt\<close> strip it (WhiteSpace and LineTerminator).\<close>

definition is_space :: "nat \<Rightarrow> bool" where
  "is_space c =
     ((9 \<le> c \<and> c \<le> 13) \<or> c = 32 \<or> c = 160 \<or> c = 5760 \<or> (8192 \<le> c \<and> c \<le> 8202)
      \<or> c = 8232 \<or> c = 8233 \<or> c = 8239 \<or> c = 8287 \<or> c = 12288 \<or> c = 65279)"

definition trim :: "jsstring \<Rightarrow> jsstring" where
  "trim s = rev (dropWhile is_space (rev (dropWhile is_space s)))"

definition is_hex_digit :: "nat \<Rightarrow> bool" where
  "is_hex_digit c = (is_digit c \<or> (97 \<le> c \<and> c \<le> 102) \<or> (65 \<le> c \<and> c \<le> 70))"

definition hex_digit_value :: "nat \<Rightarrow> nat" where
  "hex_digit_value c = (if is_digit c then c - 48 else if 97 \<le> c then c - 87 else c - 55)"

definition hex_value :: "jsstring \<Rightarrow> nat" where
  "hex_value ds = foldl (\<lambda>a c. 16 * a + hex_digit_value c) 0 ds"

text \<open>\<open>parseInt(string)\<close> with no radix: leading white space is skipped, a sign is read,
  a prefix \<open>0x\<close> or \<open>0X\<close> selects radix 16, and the longest run of digits of the radix is
  the integer read; no digit at all gives \<open>NaN\<close>. The result is a number: the integer
  itself below \<open>2^53\<close>, and what the host rounds it to from there on.\<close>

definition parseInt :: "host \<Rightarrow> jsstring \<Rightarrow> jsnum" where
  "parseInt H input =
     (let s = dropWhile is_space input;
          neg = (s \<noteq> [] \<and> hd s = 45);
          s1 = (if s \<noteq> [] \<and> (hd s = 43 \<or> hd s = 45) then tl s else s);
          hex = (2 \<le> length s1 \<and> s1 ! 0 = 48 \<and> (s1 ! 1 = 120 \<or> s1 ! 1 = 88));
          s2 = (if hex then drop 2 s1 else s1);
          z = takeWhile (if hex then is_hex_digit else is_digit) s2;
          mathInt = int (if hex then hex_value z else dec_value z)
      in if z = [] then NaN else number_of_int H (if neg then - mathInt else mathInt))"

fun dec_digits :: "nat \<Rightarrow> jsstring" where
  "dec_digits n = (if n < 10 then [48 + n] else dec_digits (n div 10) @ [48 + n mod 10])"

declare dec_digits.simps [simp del]

text \<open>The decimal digits of a number below \<open>2^53\<close>; beyond, the host prints (the
  shortest digits that read back as the same double, in exponent form from \<open>10^21\<close>).\<close>

fun num_to_string :: "host \<Rightarrow> jsnum \<Rightarrow> jsstring" where
  "num_to_string H NaN = ascii ''NaN''"
| "num_to_string H PosInf = ascii ''Infinity''"
| "num_to_string H NegInf = ascii ''-Infinity''"
| "num_to_string H (Num n) =
     (if safe n then (if n < 0 then 45 # dec_digits (nat (- n)) else dec_digits (nat n))
      else bigToString H n)"

text \<open>ToString. An array is joined with commas, \<open>null\<close> and \<open>undefined\<close> elements giving
  the empty string. An object prints as \<open>[object Object]\<close> through the inherited
  \<open>toString\<close>; an own property of that name shadows it, is not a function, and the
  conversion throws.\<close>

fun to_string :: "host \<Rightarrow> jsval \<Rightarrow> exn + jsstring"
  and join_elems :: "host \<Rightarrow> jsval list \<Rightarrow> exn + jsstring" where
  "to_string H JUndefined = Inr (ascii ''undefined'')"
| "to_string H JNull = Inr (ascii ''null'')"
| "to_string H (JBool b) = Inr (if b then ascii ''true'' else ascii ''false'')"
| "to_string H (JNum n) = Inr (num_to_string H n)"
| "to_string H (JStr s) = Inr s"
| "to_string H (JArr xs) = join_elems H xs"
| "to_string H (JObj kvs) =
     (if map_of kvs (ascii ''toString'') = None then Inr (ascii ''[object Object]'')
      else Inl TypeError)"
| "to_string H (JHost h) = hostToString H h"
| "join_elems H [] = Inr []"
| "join_elems H (x # xs) =
     (case (if x = JUndefined \<or> x = JNull then Inr [] else to_string H x) of
        Inl e \<Rightarrow> Inl e
      | Inr s \<Rightarrow>
          if xs = [] then Inr s
          else (case join_elems H xs of Inl e \<Rightarrow> Inl e | Inr r \<Rightarrow> Inr (s @ 44 # r)))"

section \<open>The configuration\<close>

text \<open>\<open>process.env.X\<close> as a condition: set and not empty.\<close>

definition env_set :: "host \<Rightarrow> jsstring \<Rightarrow> bool" where
  "env_set H x = (case env H x of Some s \<Rightarrow> s \<noteq> [] | None \<Rightarrow> False)"

text \<open>\<open>process.env.X || null\<close>, evaluated when the module is loaded.\<close>

definition env_or_null :: "host \<Rightarrow> jsstring \<Rightarrow> jsval" where
  "env_or_null H x =
     (case env_at_load H x of Some s \<Rightarrow> if s \<noteq> [] then JStr s else JNull | None \<Rightarrow> JNull)"

text \<open>\<open>parseInt(process.env.X)\<close>; the argument \<open>undefined\<close> reads as the string
  \<open>undefined\<close>.\<close>

definition env_int :: "host \<Rightarrow> jsstring \<Rightarrow> jsnum" where
  "env_int H x = parseInt H (case env H x of Some s \<Rightarrow> s | None \<Rightarrow> ascii ''undefined'')"

section \<open>Conversions and arithmetic\<close>

text \<open>ToNumber, through ToPrimitive for arrays and objects.\<close>

definition to_number :: "host \<Rightarrow> jsval \<Rightarrow> exn + jsnum" where
  "to_number H v =
     (case v of
        JUndefined \<Rightarrow> Inr NaN
      | JNull \<Rightarrow> Inr (Num 0)
      | JBool b \<Rightarrow> Inr (Num (if b then 1 else 0))
      | JNum n \<Rightarrow> Inr n
      | JStr s \<Rightarrow> Inr (strToNumber H s)
      | _ \<Rightarrow> (case to_string H v of Inl e \<Rightarrow> Inl e | Inr s \<Rightarrow> Inr (strToNumber H s)))"

text \<open>\<open>Math.floor(x / d)\<close> and \<open>x % d\<close> for a positive constant \<open>d\<close>. The remainder of
  the language has the sign of the dividend, and is exact.\<close>

fun floor_div :: "host \<Rightarrow> jsnum \<Rightarrow> int \<Rightarrow> jsnum" where
  "floor_div H NaN d = NaN"
| "floor_div H PosInf d = PosInf"
| "floor_div H NegInf d = NegInf"
| "floor_div H (Num n) d = (if safe n then Num (n div d) else bigFloorDiv H n d)"

fun js_rem :: "jsnum \<Rightarrow> int \<Rightarrow> jsnum" where
  "js_rem (Num n) d = Num (sgn n * (\<bar>n\<bar> mod d))"
| "js_rem x d = NaN"

text \<open>\<open>new Date(v).getTime()\<close>: a string is parsed, anything else is converted to a
  number and clipped to the range of time values.\<close>

definition time_clip :: "jsnum \<Rightarrow> jsnum" where
  "time_clip t =
     (case t of Num n \<Rightarrow> if \<bar>n\<bar> \<le> 8640000000000000 then Num n else NaN | _ \<Rightarrow> NaN)"

definition date_getTime :: "host \<Rightarrow> jsval \<Rightarrow> exn + jsnum" where
  "date_getTime H v =
     (case v of
        JStr s \<Rightarrow> Inr (dateParse H s)
      | JArr xs \<Rightarrow> (case to_string H v of Inl e \<Rightarrow> Inl e | Inr s \<Rightarrow> Inr (dateParse H s))
      | JObj kvs \<Rightarrow> (case to_string H v of Inl e \<Rightarrow> Inl e | Inr s \<Rightarrow> Inr (dateParse H s))
      | JHost h \<Rightarrow> (case to_string H v of Inl e \<Rightarrow> Inl e | Inr s \<Rightarrow> Inr (dateParse H s))
      | _ \<Rightarrow> (case to_number H v of Inl e \<Rightarrow> Inl e | Inr t \<Rightarrow> Inr (time_clip t)))"

section \<open>The mappings\<close>

text \<open>One field of a mapping: \<open>source\<close> (a dotted path, \<open>static\<close> or \<open>multiple\<close>; an
  absent source behaves as the empty one), \<open>value\<close> (\<open>undefined\<close> when absent) and an
  optional \<open>transform(value, data)\<close>, which may throw.\<close>

record config =
  source :: jsstring
  static_value :: jsval
  transform :: "(jsval \<Rightarrow> jsval \<Rightarrow> exn + jsval) option"

type_synonym mapping = "(jsstring \<times> config) list"

text \<open>The Russian literals of the source, as UTF-16 code units: the words
  "Lid ot AI menedzhera" (lead from the AI manager), "Kontakt" (contact),
  "Kontakt bez imeni" (contact without a name), " min " and " sek".\<close>

definition lit_lead :: jsstring where
  "lit_lead = [1051, 1080, 1076, 32, 1086, 1090, 32, 65, 73, 32,
               1084, 1077, 1085, 1077, 1076, 1078, 1077, 1088, 1072]"

definition lit_contact :: jsstring where
  "lit_contact = [1050, 1086, 1085, 1090, 1072, 1082, 1090]"

definition lit_contact_unnamed :: jsstring where
  "lit_contact_unnamed = [1050, 1086, 1085, 1090, 1072, 1082, 1090, 32, 1073, 1077, 1079, 32,
                          1080, 1084, 1077, 1085, 1080]"

definition lit_min :: jsstring where
  "lit_min = [32, 1084, 1080, 1085, 32]"

definition lit_sec :: jsstring where
  "lit_sec = [32, 1089, 1077, 1082]"

text \<open>\<open>x || {}\<close>.\<close>

definition or_empty :: "jsval \<Rightarrow> jsval" where
  "or_empty v = (if truthy v then v else JObj [])"

text \<open>\<open>a > 250\<close> on numbers: false for \<open>NaN\<close>.\<close>

fun num_gt :: "jsnum \<Rightarrow> int \<Rightarrow> bool" where
  "num_gt NaN k = False"
| "num_gt PosInf k = True"
| "num_gt NegInf k = False"
| "num_gt (Num n) k = (k < n)"

subsection \<open>The lead\<close>

definition leadMapping_name_transform :: "host \<Rightarrow> jsval \<Rightarrow> jsval \<Rightarrow> exn + jsval" where
  "leadMapping_name_transform H value data =
     (if truthy value then
        (case to_number H (lookup value (ascii ''length'')) of
           Inl e \<Rightarrow> Inl e
         | Inr len \<Rightarrow>
             if num_gt len 250 then
               (case value of
                  JStr s \<Rightarrow> Inr (JStr (take 247 s @ ascii ''...''))
                | _ \<Rightarrow> Inl TypeError)
             else Inr value)
      else
        (case js_get data (ascii ''call'') of
           Inl e \<Rightarrow> Inl e
         | Inr c \<Rightarrow>
             let clientName = lookup (lookup c (ascii ''agreements'')) (ascii ''client_name'') in
             if truthy clientName then
               (case to_string H clientName of
                  Inl e \<Rightarrow> Inl e
                | Inr s \<Rightarrow> Inr (JStr (lit_lead @ ascii '': '' @ s)))
             else
               (case js_get data (ascii ''contact'') of
                  Inl e \<Rightarrow> Inl e
                | Inr ct \<Rightarrow>
                    let phone = lookup ct (ascii ''phone'') in
                    if truthy phone then
                      (case to_string H phone of
                         Inl e \<Rightarrow> Inl e
                       | Inr s \<Rightarrow> Inr (JStr (lit_lead @ ascii '': '' @ s)))
                    else Inr (JStr lit_lead))))"

definition leadMapping_price_transform :: "host \<Rightarrow> jsval \<Rightarrow> jsval \<Rightarrow> exn + jsval" where
  "leadMapping_price_transform H value data =
     (if \<not> truthy value then Inr JNull
      else
        (case to_string H value of
           Inl e \<Rightarrow> Inl e
         | Inr s \<Rightarrow>
             (case parseInt H s of
                NaN \<Rightarrow> Inr JNull
              | numValue \<Rightarrow> Inr (JNum numValue))))"

text \<open>\<open>{ field_id: id, values: [{ value: v }] }\<close> and
  \<open>{ field_code: code, values: [{ value: v, enum_code: 'WORK' }] }\<close>.\<close>

definition field_id_entry :: "jsnum \<Rightarrow> jsval \<Rightarrow> jsval" where
  "field_id_entry fid v =
     JObj [(ascii ''field_id'', JNum fid),
           (ascii ''values'', JArr [JObj [(ascii ''value'', v)]])]"

definition field_code_entry :: "jsstring \<Rightarrow> jsval \<Rightarrow> jsval" where
  "field_code_entry code v =
     JObj [(ascii ''field_code'', JStr code),
           (ascii ''values'',
            JArr [JObj [(ascii ''value'', v), (ascii ''enum_code'', JStr (ascii ''WORK''))]])]"

text \<open>The block \<^verbatim>\<open>if (process.env.X && v) customFields.push({field_id: parseInt(process.env.X), values: [{value: v}]})\<close>,
  as the entries it pushes.\<close>

definition gated_entry :: "host \<Rightarrow> jsstring \<Rightarrow> jsval \<Rightarrow> jsval list" where
  "gated_entry H x v = (if env_set H x \<and> truthy v then [field_id_entry (env_int H x) v] else [])"

text \<open>The call duration, from milliseconds to minutes and seconds.\<close>

definition duration_entry :: "host \<Rightarrow> jsval \<Rightarrow> exn + jsval list" where
  "duration_entry H call =
     (if env_set H (ascii ''AMOCRM_CALL_DURATION_FIELD_ID'') \<and> truthy (lookup call (ascii ''duration''))
      then
        (case to_number H (lookup call (ascii ''duration'')) of
           Inl e \<Rightarrow> Inl e
         | Inr d \<Rightarrow>
             let minutes = floor_div H d 60000;
                 seconds = floor_div H (js_rem d 60000) 1000
             in Inr [field_id_entry (env_int H (ascii ''AMOCRM_CALL_DURATION_FIELD_ID''))
                       (JStr (num_to_string H minutes @ lit_min @ num_to_string H seconds @ lit_sec))])
      else Inr [])"

text \<open>The start of the call, as seconds since the epoch.\<close>

definition started_entry :: "host \<Rightarrow> jsval \<Rightarrow> exn + jsval list" where
  "started_entry H call =
     (if env_set H (ascii ''AMOCRM_CALL_STARTED_FIELD_ID'') \<and> truthy (lookup call (ascii ''startedAt''))
      then
        (case date_getTime H (lookup call (ascii ''startedAt'')) of
           Inl e \<Rightarrow> Inl e
         | Inr t \<Rightarrow>
             let dateValue = floor_div H t 1000
             in Inr [field_id_entry (env_int H (ascii ''AMOCRM_CALL_STARTED_FIELD_ID''))
                       (JNum dateValue)])
      else Inr [])"

definition leadMapping_custom_fields_values_transform ::
    "host \<Rightarrow> jsval \<Rightarrow> jsval \<Rightarrow> exn + jsval" where
  "leadMapping_custom_fields_values_transform H value data =
     (case js_get data (ascii ''call'') of
        Inl e \<Rightarrow> Inl e
      | Inr c \<Rightarrow>
     (case js_get data (ascii ''contact'') of
        Inl e \<Rightarrow> Inl e
      | Inr ct \<Rightarrow>
     let agreements = or_empty (lookup c (ascii ''agreements''));
         call = or_empty c;
         contact = or_empty ct
     in
     (case duration_entry H call of
        Inl e \<Rightarrow> Inl e
      | Inr duration \<Rightarrow>
     (case started_entry H call of
        Inl e \<Rightarrow> Inl e
      | Inr started \<Rightarrow>
     let customFields =
           gated_entry H (ascii ''AMOCRM_AGREEMENTS_FIELD_ID'')
             (lookup agreements (ascii ''agreements''))
         @ gated_entry H (ascii ''AMOCRM_CLIENT_FACTS_FIELD_ID'')
             (lookup agreements (ascii ''client_facts''))
         @ gated_entry H (ascii ''AMOCRM_SMS_TEXT_FIELD_ID'')
             (lookup agreements (ascii ''smsText''))
         @ duration
         @ started
         @ gated_entry H (ascii ''AMOCRM_CALL_RECORD_URL_FIELD_ID'')
             (lookup call (ascii ''recordUrl''))
         @ gated_entry H (ascii ''AMOCRM_CALL_HISTORY_FIELD_ID'')
             (lookup agreements (ascii ''historycall''))
         @ gated_entry H (ascii ''AMOCRM_AGREEMENTS_TIME_FIELD_ID'')
             (lookup agreements (ascii ''agreements_time''))
         @ gated_entry H (ascii ''AMOCRM_REGION_FIELD_ID'')
             (lookup (lookup contact (ascii ''dadataPhoneInfo'')) (ascii ''region''))
         @ gated_entry H (ascii ''AMOCRM_COMPANY_FIELD_ID'')
             (lookup (lookup contact (ascii ''additionalFields'')) (ascii ''company''))
     in Inr (if customFields \<noteq> [] then JArr customFields else JNull)))))"

definition leadMapping :: "host \<Rightarrow> mapping" where
  "leadMapping H =
     [(ascii ''name'',
       \<lparr>source = ascii ''call.agreements.agreements'', static_value = JUndefined,
        transform = Some (leadMapping_name_transform H)\<rparr>),
      (ascii ''pipeline_id'',
       \<lparr>source = ascii ''static'', static_value = env_or_null H (ascii ''AMOCRM_PIPELINE_ID''),
        transform = None\<rparr>),
      (ascii ''status_id'',
       \<lparr>source = ascii ''static'', static_value = env_or_null H (ascii ''AMOCRM_STATUS_ID''),
        transform = None\<rparr>),
      (ascii ''price'',
       \<lparr>source = ascii ''call.agreements.price'', static_value = JUndefined,
        transform = Some (leadMapping_price_transform H)\<rparr>),
      (ascii ''custom_fields_values'',
       \<lparr>source = ascii ''multiple'', static_value = JUndefined,
        transform = Some (leadMapping_custom_fields_values_transform H)\<rparr>)]"

subsection \<open>The contact\<close>

definition contactMapping_name_transform :: "host \<Rightarrow> jsval \<Rightarrow> jsval \<Rightarrow> exn + jsval" where
  "contactMapping_name_transform H value data =
     (if truthy value then
        (case value of
           JStr s \<Rightarrow> Inr (JStr (trim s))
         | _ \<Rightarrow> Inl TypeError)
      else
        (case js_get data (ascii ''contact'') of
           Inl e \<Rightarrow> Inl e
         | Inr ct \<Rightarrow>
             let phone = lookup ct (ascii ''phone'') in
             if truthy phone then
               (case to_string H phone of
                  Inl e \<Rightarrow> Inl e
                | Inr s \<Rightarrow> Inr (JStr (lit_contact @ ascii '' '' @ s)))
             else Inr (JStr lit_contact_unnamed)))"

text \<open>The phone: the digits of \<open>contact.phone\<close>, with \<open>+\<close> in front when they start
  with 7 and \<open>+7\<close> otherwise.\<close>

definition phone_entry :: "jsval \<Rightarrow> exn + jsval list" where
  "phone_entry contact =
     (if truthy (lookup contact (ascii ''phone'')) then
        (case lookup contact (ascii ''phone'') of
           JStr s \<Rightarrow>
             let phoneFormatted = filter is_digit s in
             if phoneFormatted \<noteq> [] then
               let phoneValue =
                     (if hd phoneFormatted = 55 then ascii ''+'' @ phoneFormatted
                      else ascii ''+7'' @ phoneFormatted)
               in Inr [field_code_entry (ascii ''PHONE'') (JStr phoneValue)]
             else Inr []
         | _ \<Rightarrow> Inl TypeError)
      else Inr [])"

definition email_entry :: "jsval \<Rightarrow> jsval list" where
  "email_entry contact =
     (let email = lookup (lookup contact (ascii ''additionalFields'')) (ascii ''email'') in
      if truthy email then [field_code_entry (ascii ''EMAIL'') email] else [])"

definition contactMapping_custom_fields_values_transform ::
    "host \<Rightarrow> jsval \<Rightarrow> jsval \<Rightarrow> exn + jsval" where
  "contactMapping_custom_fields_values_transform H value data =
     (case js_get data (ascii ''contact'') of
        Inl e \<Rightarrow> Inl e
      | Inr ct \<Rightarrow>
     let contact = or_empty ct in
     (case phone_entry contact of
        Inl e \<Rightarrow> Inl e
      | Inr phone \<Rightarrow>
     let customFields =
           phone
         @ email_entry contact
         @ gated_entry H (ascii ''AMOCRM_CONTACT_COMPANY_FIELD_ID'')
             (lookup (lookup contact (ascii ''additionalFields'')) (ascii ''company''))
         @ gated_entry H (ascii ''AMOCRM_CONTACT_CITY_FIELD_ID'')
             (lookup (lookup contact (ascii ''additionalFields'')) (ascii ''city''))
     in Inr (if customFields \<noteq> [] then JArr customFields else JNull)))"

definition contactMapping :: "host \<Rightarrow> mapping" where
  "contactMapping H =
     [(ascii ''name'',
       \<lparr>source = ascii ''call.agreements.client_name'', static_value = JUndefined,
        transform = Some (contactMapping_name_transform H)\<rparr>),
      (ascii ''custom_fields_values'',
       \<lparr>source = ascii ''multiple'', static_value = JUndefined,
        transform = Some (contactMapping_custom_fields_values_transform H)\<rparr>)]"

section \<open>Applying a mapping\<close>

text \<open>The body of the \<open>try\<close> block, up to the value of the field.\<close>

definition field_value :: "host \<Rightarrow> jsval \<Rightarrow> config \<Rightarrow> exn + jsval" where
  "field_value H webhookData cfg =
     (if source cfg = ascii ''static'' then Inr (static_value cfg)
      else if source cfg = ascii ''multiple'' then
        (case transform cfg of
           Some f \<Rightarrow> f JNull webhookData
         | None \<Rightarrow> Inr JNull)
      else
        (case getValueByPath H webhookData (source cfg) of
           Inl e \<Rightarrow> Inl e
         | Inr rawValue \<Rightarrow>
             (case transform cfg of
                Some f \<Rightarrow> f rawValue webhookData
              | None \<Rightarrow> Inr rawValue)))"

text \<open>The loop over \<open>Object.entries(mapping)\<close>. The state is the object \<open>result\<close> and the
  warnings written so far, each naming its field and carrying the exception.\<close>

type_synonym fields = "(jsstring \<times> jsval) list"

type_synonym warnings = "(jsstring \<times> exn) list"

fun applyMapping_loop ::
    "host \<Rightarrow> jsval \<Rightarrow> mapping \<Rightarrow> fields \<times> warnings \<Rightarrow> fields \<times> warnings" where
  "applyMapping_loop H webhookData [] st = st"
| "applyMapping_loop H webhookData ((amocrmField, cfg) # rest) (result, warned) =
     (case field_value H webhookData cfg of
        Inr v \<Rightarrow>
          applyMapping_loop H webhookData rest
            (if v \<noteq> JNull \<and> v \<noteq> JUndefined then AList.update amocrmField v result else result,
             warned)
      | Inl e \<Rightarrow>
          applyMapping_loop H webhookData rest (result, warned @ [(amocrmField, e)]))"

definition applyMapping :: "host \<Rightarrow> jsval \<Rightarrow> mapping \<Rightarrow> fields \<times> warnings" where
  "applyMapping H webhookData m = applyMapping_loop H webhookData m ([], [])"

text \<open>What one field leaves in the result: nothing when its computation threw, or gave
  \<open>null\<close> or \<open>undefined\<close>.\<close>

definition kept :: "exn + jsval \<Rightarrow> jsval option" where
  "kept x = (case x of Inr v \<Rightarrow> if v \<noteq> JNull \<and> v \<noteq> JUndefined then Some v else None
                     | Inl e \<Rightarrow> None)"

section \<open>Creating the lead\<close>

text \<open>
  The repository holds two variants of the server that calls the mapping, with the same
  function names. \<open>createLeadInAmoCRM\<close> below is the one that links the contact through
  \<open>_embedded.contacts\<close>; \<open>createLeadInAmoCRM_part_001\<close> is the one that links it through
  \<open>contacts_id\<close>. Both are modelled up to the call of \<open>axios.post\<close>: the result is either
  the error thrown before that call, or the request the call is made with. What the
  server answers is not part of the model.
\<close>

datatype server_error =
    SubdomainNotSet
  | SubdomainInvalid
  | InvalidUrl
  | AccessTokenNotSet
  | LeadNameMissing
  | PipelineIdNotSet
  | PipelineIdNotNumber
  | StatusIdNotNumber
  | Uncaught exn

record request =
  url :: jsstring
  body :: jsval
  bearer :: jsstring

text \<open>\<open>subdomain.trim().replace(/[^a-zA-Z0-9-]/g, '')\<close> keeps these code units.\<close>

definition is_subdomain_char :: "nat \<Rightarrow> bool" where
  "is_subdomain_char c =
     ((97 \<le> c \<and> c \<le> 122) \<or> (65 \<le> c \<and> c \<le> 90) \<or> is_digit c \<or> c = 45)"

text \<open>The host name of the URL built here ends in \<open>.amocrm.ru\<close>, so the check of the host
  name that follows \<open>new URL(baseUrl)\<close> in the source passes whenever the URL parses.\<close>

definition getAmoCRMBaseUrl :: "host \<Rightarrow> server_error + jsstring" where
  "getAmoCRMBaseUrl H =
     (case env H (ascii ''AMOCRM_SUBDOMAIN'') of
        None \<Rightarrow> Inl SubdomainNotSet
      | Some subdomain \<Rightarrow>
          if subdomain = [] \<or> trim subdomain = [] then Inl SubdomainNotSet
          else
            let cleanSubdomain = filter is_subdomain_char (trim subdomain) in
            if cleanSubdomain = [] then Inl SubdomainInvalid
            else
              let baseUrl = ascii ''https://'' @ cleanSubdomain @ ascii ''.amocrm.ru'' in
              if urlParses H baseUrl then Inr baseUrl else Inl InvalidUrl)"

definition getAmoCRMToken :: "host \<Rightarrow> server_error + jsstring" where
  "getAmoCRMToken H =
     (case env H (ascii ''AMOCRM_ACCESS_TOKEN'') of
        None \<Rightarrow> Inl AccessTokenNotSet
      | Some token \<Rightarrow> if token = [] then Inl AccessTokenNotSet else Inr token)"

text \<open>\<open>parseInt(v)\<close> on a value: the value is converted to a string first.\<close>

definition js_parseInt :: "host \<Rightarrow> jsval \<Rightarrow> exn + jsnum" where
  "js_parseInt H v = (case to_string H v of Inl e \<Rightarrow> Inl e | Inr s \<Rightarrow> Inr (parseInt H s))"

text \<open>\<open>typeof contactId === 'string' ? parseInt(contactId) : contactId\<close>.\<close>

definition contact_id_num :: "host \<Rightarrow> jsval \<Rightarrow> jsval" where
  "contact_id_num H contactId =
     (case contactId of JStr s \<Rightarrow> JNum (parseInt H s) | _ \<Rightarrow> contactId)"

text \<open>\<open>o.k = v\<close>; the assignment to a property of a primitive value is lost.\<close>

definition set_prop :: "jsval \<Rightarrow> jsstring \<Rightarrow> jsval \<Rightarrow> jsval" where
  "set_prop target k v =
     (case target of JObj kvs \<Rightarrow> JObj (AList.update k v kvs) | _ \<Rightarrow> target)"

text \<open>The link to the contact: \<open>_embedded.contacts = [{ id, is_main: true }]\<close> when the
  identifier is a positive number.\<close>

definition link_contact :: "host \<Rightarrow> jsval \<Rightarrow> fields \<Rightarrow> server_error + fields" where
  "link_contact H contactId leadFields =
     (if truthy contactId then
        (let contactIdNum = contact_id_num H contactId in
         case to_number H contactIdNum of
           Inl e \<Rightarrow> Inl (Uncaught e)
         | Inr n \<Rightarrow>
             if n \<noteq> NaN \<and> num_gt n 0 then
               (let embedded = (if \<not> truthy (lookup (JObj leadFields) (ascii ''_embedded''))
                                then JObj []
                                else lookup (JObj leadFields) (ascii ''_embedded''));
                    contacts = JArr [JObj [(ascii ''id'', contactIdNum),
                                           (ascii ''is_main'', JBool True)]]
                in Inr (AList.update (ascii ''_embedded'')
                          (set_prop embedded (ascii ''contacts'') contacts) leadFields))
             else Inr leadFields)
      else Inr leadFields)"

text \<open>The identifiers of the pipeline and of the status, from strings to numbers.\<close>

definition numeric_ids :: "host \<Rightarrow> fields \<Rightarrow> server_error + fields" where
  "numeric_ids H leadFields =
     (case js_parseInt H (lookup (JObj leadFields) (ascii ''pipeline_id'')) of
        Inl e \<Rightarrow> Inl (Uncaught e)
      | Inr p \<Rightarrow>
          if p = NaN then Inl PipelineIdNotNumber
          else
            let withPipeline = AList.update (ascii ''pipeline_id'') (JNum p) leadFields in
            if truthy (lookup (JObj withPipeline) (ascii ''status_id'')) then
              (case js_parseInt H (lookup (JObj withPipeline) (ascii ''status_id'')) of
                 Inl e \<Rightarrow> Inl (Uncaught e)
               | Inr st \<Rightarrow>
                   if st = NaN then Inl StatusIdNotNumber
                   else Inr (AList.update (ascii ''status_id'') (JNum st) withPipeline))
            else Inr withPipeline)"

definition createLeadInAmoCRM :: "host \<Rightarrow> jsval \<Rightarrow> jsval \<Rightarrow> server_error + request" where
  "createLeadInAmoCRM H data contactId =
     (case getAmoCRMBaseUrl H of
        Inl e \<Rightarrow> Inl e
      | Inr baseUrl \<Rightarrow>
     (case getAmoCRMToken H of
        Inl e \<Rightarrow> Inl e
      | Inr token \<Rightarrow>
     let leadFields = fst (applyMapping H data (leadMapping H)) in
     if \<not> truthy (lookup (JObj leadFields) (ascii ''name'')) then Inl LeadNameMissing
     else if \<not> truthy (lookup (JObj leadFields) (ascii ''pipeline_id'')) then Inl PipelineIdNotSet
     else
     (case numeric_ids H leadFields of
        Inl e \<Rightarrow> Inl e
      | Inr withIds \<Rightarrow>
     (case link_contact H contactId withIds of
        Inl e \<Rightarrow> Inl e
      | Inr linked \<Rightarrow>
     let leadData = JArr [JObj linked];
         u = baseUrl @ ascii ''/api/v4/leads''
     in if urlParses H u then Inr \<lparr>url = u, body = leadData, bearer = token\<rparr>
        else Inl InvalidUrl))))"

subsection \<open>The second variant\<close>

definition getAmoCRMBaseUrl_part_001 :: "host \<Rightarrow> server_error + jsstring" where
  "getAmoCRMBaseUrl_part_001 H =
     (case env H (ascii ''AMOCRM_SUBDOMAIN'') of
        None \<Rightarrow> Inl SubdomainNotSet
      | Some subdomain \<Rightarrow>
          if subdomain = [] then Inl SubdomainNotSet
          else Inr (ascii ''https://'' @ subdomain @ ascii ''.amocrm.ru''))"

definition createLeadInAmoCRM_part_001 :: "host \<Rightarrow> jsval \<Rightarrow> jsval \<Rightarrow> server_error + request" where
  "createLeadInAmoCRM_part_001 H data contactId =
     (case getAmoCRMBaseUrl_part_001 H of
        Inl e \<Rightarrow> Inl e
      | Inr baseUrl \<Rightarrow>
     (case getAmoCRMToken H of
        Inl e \<Rightarrow> Inl e
      | Inr token \<Rightarrow>
     let leadFields = fst (applyMapping H data (leadMapping H));
         linked = (if truthy contactId
                   then AList.update (ascii ''contacts_id'') (JArr [contact_id_num H contactId]) leadFields
                   else leadFields);
         leadData = JArr [JObj linked]
     in Inr \<lparr>url = baseUrl @ ascii ''/api/v4/leads'', body = leadData, bearer = token\<rparr>))"

section \<open>The configuration of the custom fields\<close>

text \<open>The identifiers of custom fields that the two mappings read from the environment, and
  the hosts in which none of them is set.\<close>

definition field_id_names :: "jsstring list" where
  "field_id_names =
     [ascii ''AMOCRM_AGREEMENTS_FIELD_ID'', ascii ''AMOCRM_CLIENT_FACTS_FIELD_ID'',
      ascii ''AMOCRM_SMS_TEXT_FIELD_ID'', ascii ''AMOCRM_CALL_DURATION_FIELD_ID'',
      ascii ''AMOCRM_CALL_STARTED_FIELD_ID'', ascii ''AMOCRM_CALL_RECORD_URL_FIELD_ID'',
      ascii ''AMOCRM_CALL_HISTORY_FIELD_ID'', ascii ''AMOCRM_AGREEMENTS_TIME_FIELD_ID'',
      ascii ''AMOCRM_REGION_FIELD_ID'', ascii ''AMOCRM_COMPANY_FIELD_ID'',
      ascii ''AMOCRM_CONTACT_COMPANY_FIELD_ID'', ascii ''AMOCRM_CONTACT_CITY_FIELD_ID'']"

definition no_field_ids :: "host \<Rightarrow> bool" where
  "no_field_ids H = list_all (\<lambda>x. \<not> env_set H x) field_id_names"

section \<open>Sample deliveries\<close>

text \<open>A host with no configuration at all, and payloads as the calling platform sends them,
  used to run the model on concrete input.\<close>

text \<open>A fragment of the standard library: a string inherits the method \<open>trim\<close> and its
  constructor \<open>String\<close>, both functions with a \<open>name\<close>; the accessor \<open>caller\<close> of a
  built-in function throws.\<close>

definition sample_inherited :: "jsval \<Rightarrow> jsstring \<Rightarrow> exn + hostval" where
  "sample_inherited v k =
     (case v of
        JStr s \<Rightarrow>
          if k = ascii ''trim'' then Inr (HostObject 0)
          else if k = ascii ''constructor'' then Inr (HostObject 1)
          else Inr HostUndefined
      | JHost h \<Rightarrow>
          if k = ascii ''caller'' then Inl TypeError
          else if k = ascii ''name'' then
            Inr (HostStr (if h = 0 then ascii ''trim'' else ascii ''String''))
          else Inr HostUndefined
      | _ \<Rightarrow> Inr HostUndefined)"

text \<open>Rounding an integer to the nearest double, ties to the even mantissa.\<close>

fun excess_bits :: "nat \<Rightarrow> nat" where
  "excess_bits a = (if a < 9007199254740992 then 0 else Suc (excess_bits (a div 2)))"

declare excess_bits.simps [simp del]

definition nearest_double :: "int \<Rightarrow> jsnum" where
  "nearest_double n =
     (let a = nat \<bar>n\<bar>;
          e = excess_bits a;
          q = a div 2 ^ e;
          r = a mod 2 ^ e;
          q' = (if 2 ^ e < 2 * r \<or> (2 * r = 2 ^ e \<and> odd q) then q + 1 else q);
          m = int (q' * 2 ^ e)
      in if 2 ^ 1024 \<le> m then (if n < 0 then NegInf else PosInf)
         else Num (if n < 0 then - m else m))"

text \<open>A host with no configuration at all. Printing and dividing numbers from \<open>2^53\<close> on
  is not needed by any sample, and is filled in crudely.\<close>

definition no_config :: host where
  "no_config =
     \<lparr>env_at_load = (\<lambda>x. None), env = (\<lambda>x. None), inherited = sample_inherited,
      hostToString = (\<lambda>h. Inr (ascii ''function () { [native code] }'')),
      strToNumber = (\<lambda>s. NaN), dateParse = (\<lambda>s. NaN), urlParses = (\<lambda>s. True),
      bigInt = nearest_double, bigToString = (\<lambda>n. ascii ''1e+21''),
      bigFloorDiv = (\<lambda>n d. nearest_double (n div d))\<rparr>"

definition sample_payload :: jsval where
  "sample_payload =
     JObj [(ascii ''contact'', JObj [(ascii ''phone'', JStr (ascii ''79990001234''))]),
           (ascii ''call'', JObj [(ascii ''agreements'', JObj [])])]"

text \<open>The client's name arrives as a number, on which \<open>trim\<close> is not a function.\<close>

definition bad_name_payload :: jsval where
  "bad_name_payload =
     JObj [(ascii ''contact'', JObj [(ascii ''phone'', JStr (ascii ''79990001234''))]),
           (ascii ''call'',
            JObj [(ascii ''agreements'', JObj [(ascii ''client_name'', JNum (Num 5))])])]"

text \<open>The agreements are the empty string.\<close>

definition empty_agreements_payload :: jsval where
  "empty_agreements_payload =
     JObj [(ascii ''contact'', JObj [(ascii ''phone'', JStr (ascii ''79990001234''))]),
           (ascii ''call'', JObj [(ascii ''agreements'', JObj [(ascii ''agreements'', JStr [])])])]"

text \<open>The agreements are the letter X, 300 times.\<close>

definition long_agreements_payload :: jsval where
  "long_agreements_payload =
     JObj [(ascii ''call'',
            JObj [(ascii ''agreements'', JObj [(ascii ''agreements'', JStr (replicate 300 88))])])]"

definition short_agreements_payload :: jsval where
  "short_agreements_payload =
     JObj [(ascii ''call'',
            JObj [(ascii ''agreements'',
                   JObj [(ascii ''agreements'', JStr (ascii ''call back''))])])]"

text \<open>A delivery whose agreements carry a price.\<close>

definition price_payload :: "jsval \<Rightarrow> jsval" where
  "price_payload v =
     JObj [(ascii ''call'', JObj [(ascii ''agreements'', JObj [(ascii ''price'', v)])])]"

text \<open>The phone is written the national way, with a leading 8.\<close>

definition eight_payload :: jsval where
  "eight_payload = JObj [(ascii ''contact'', JObj [(ascii ''phone'', JStr (ascii ''89990001234''))])]"

text \<open>A delivery with every value the mappings look at.\<close>

definition full_payload :: jsval where
  "full_payload =
     JObj [(ascii ''contact'',
            JObj [(ascii ''phone'', JStr (ascii ''79990001234'')),
                  (ascii ''additionalFields'',
                   JObj [(ascii ''email'', JStr (ascii ''a@b.ru'')),
                         (ascii ''company'', JStr (ascii ''Acme'')),
                         (ascii ''city'', JStr (ascii ''Kazan''))]),
                  (ascii ''dadataPhoneInfo'', JObj [(ascii ''region'', JStr (ascii ''Tatarstan''))])]),
           (ascii ''call'',
            JObj [(ascii ''duration'', JNum (Num 125000)),
                  (ascii ''startedAt'', JStr (ascii ''2024-01-01T10:00:00Z'')),
                  (ascii ''recordUrl'', JStr (ascii ''https://example.org/r.mp3'')),
                  (ascii ''agreements'',
                   JObj [(ascii ''agreements'', JStr (ascii ''call back'')),
                         (ascii ''client_facts'', JStr (ascii ''likes tea'')),
                         (ascii ''smsText'', JStr (ascii ''hello'')),
                         (ascii ''historycall'', JStr (ascii ''...'')),
                         (ascii ''agreements_time'', JStr (ascii ''tomorrow''))])])]"

text \<open>A host with the subdomain and the access token, and no identifier of the pipeline.\<close>

definition no_pipeline_host :: host where
  "no_pipeline_host =
     no_config
       \<lparr>env_at_load := [ascii ''AMOCRM_SUBDOMAIN'' \<mapsto> ascii ''mycompany'',
                        ascii ''AMOCRM_ACCESS_TOKEN'' \<mapsto> ascii ''secret''],
        env := [ascii ''AMOCRM_SUBDOMAIN'' \<mapsto> ascii ''mycompany'',
                ascii ''AMOCRM_ACCESS_TOKEN'' \<mapsto> ascii ''secret'']\<rparr>"

text \<open>The identifier of the pipeline is written in the file \<open>.env\<close> only: it is in the
  environment when a delivery is handled, and was not when the module was loaded.\<close>

definition dotenv_pipeline_host :: host where
  "dotenv_pipeline_host =
     no_pipeline_host
       \<lparr>env := [ascii ''AMOCRM_SUBDOMAIN'' \<mapsto> ascii ''mycompany'',
                ascii ''AMOCRM_ACCESS_TOKEN'' \<mapsto> ascii ''secret'',
                ascii ''AMOCRM_PIPELINE_ID'' \<mapsto> ascii ''12'']\<rparr>"

text \<open>An object whose property \<open>a\<close> is a string.\<close>

definition text_payload :: jsval where
  "text_payload = JObj [(ascii ''a'', JStr (ascii ''text''))]"

section \<open>Running the model\<close>

text \<open>The definitions to unfold when the model is run on a concrete delivery.\<close>

lemmas eval_defs =
  ascii_def lookup_def js_get_def js_read_def member_def off_chain_def webhook_names_def
  getValueByPath_def walk_def path_step_def array_index_def safe_def number_of_int_def
  is_digit_def dec_value_def is_space_def trim_def or_empty_def kept_def
  field_value_def applyMapping_def leadMapping_def contactMapping_def
  leadMapping_name_transform_def leadMapping_price_transform_def
  leadMapping_custom_fields_values_transform_def contactMapping_name_transform_def
  contactMapping_custom_fields_values_transform_def phone_entry_def email_entry_def
  gated_entry_def duration_entry_def started_entry_def env_set_def env_or_null_def env_int_def
  field_id_entry_def field_code_entry_def to_number_def lit_lead_def lit_contact_def
  lit_contact_unnamed_def lit_min_def lit_sec_def no_field_ids_def field_id_names_def Let_def

lemmas server_defs =
  createLeadInAmoCRM_def createLeadInAmoCRM_part_001_def getAmoCRMBaseUrl_def
  getAmoCRMBaseUrl_part_001_def getAmoCRMToken_def is_subdomain_char_def numeric_ids_def
  link_contact_def contact_id_num_def js_parseInt_def set_prop_def

lemmas sample_defs =
  no_config_def no_pipeline_host_def dotenv_pipeline_host_def sample_inherited_def
  text_payload_def sample_payload_def bad_name_payload_def
  empty_agreements_payload_def long_agreements_payload_def short_agreements_payload_def
  price_payload_def eight_payload_def full_payload_def

section \<open>Properties of the path resolver\<close>



lemma truthy_not_nullish: "truthy v \<Longrightarrow> v \<noteq> JUndefined \<and> v \<noteq> JNull"
  by auto

lemma path_step_Inr:
  "path_step H (Inr v) k =
     (if truthy v then
        (case member H v k of
           Inl e \<Rightarrow> Inl e
         | Inr x \<Rightarrow> Inr (if x \<noteq> JUndefined then x else JNull))
      else Inr JNull)"
  using truthy_not_nullish [of v]
  by (auto simp: path_step_def js_read_def split: sum.split)

lemma path_step_Inl: "path_step H (Inl e) k = Inl e"
  by (simp add: path_step_def)

lemma foldl_path_step_Inl: "foldl (path_step H) (Inl e) ks = Inl e"
  by (induction ks) (simp_all add: path_step_Inl)

lemma walk_Nil: "walk H obj [] = Inr obj"
  by (simp add: walk_def)

lemma walk_Cons:
  "walk H obj (k # ks) =
     (case path_step H (Inr obj) k of Inl e \<Rightarrow> Inl e | Inr x \<Rightarrow> walk H x ks)"
  by (simp add: walk_def foldl_path_step_Inl split: sum.split)


lemma walk_falsy: "\<not> truthy v \<Longrightarrow> walk H v (k # ks) = Inr JNull"
  by (induction ks arbitrary: k) (simp_all add: walk_Nil walk_Cons path_step_Inr)

lemma walk_JNull: "walk H JNull ks = Inr JNull"
  by (cases ks) (simp_all add: walk_Nil walk_falsy)











section \<open>Properties of the mapping applier\<close>




lemma update_values:
  assumes "\<forall>(k, v) \<in> set r. P v" and "P u"
  shows "\<forall>(k, v) \<in> set (AList.update f u r). P v"
  using assms by (induction r) auto

lemma loop_values:
  assumes "\<forall>(k, v) \<in> set r. v \<noteq> JNull \<and> v \<noteq> JUndefined"
  shows "\<forall>(k, v) \<in> set (fst (applyMapping_loop H d m (r, w))). v \<noteq> JNull \<and> v \<noteq> JUndefined"
  using assms
proof (induction m arbitrary: r w)
  case Nil
  then show ?case by simp
next
  case (Cons x m)
  obtain f cfg where x: "x = (f, cfg)" by (cases x)
  show ?case
  proof (cases "field_value H d cfg")
    case (Inl e)
    have "\<forall>(k, v) \<in> set (fst (applyMapping_loop H d m (r, w @ [(f, e)]))). v \<noteq> JNull \<and> v \<noteq> JUndefined"
      by (rule Cons.IH) (rule Cons.prems)
    then show ?thesis unfolding x using Inl by simp
  next
    case (Inr v)
    let ?r = "if v \<noteq> JNull \<and> v \<noteq> JUndefined then AList.update f v r else r"
    have "\<forall>(k, u) \<in> set ?r. u \<noteq> JNull \<and> u \<noteq> JUndefined"
      using Cons.prems update_values [of r "\<lambda>u. u \<noteq> JNull \<and> u \<noteq> JUndefined" v f] by simp
    then have "\<forall>(k, v) \<in> set (fst (applyMapping_loop H d m (?r, w))). v \<noteq> JNull \<and> v \<noteq> JUndefined"
      by (rule Cons.IH)
    then show ?thesis unfolding x using Inr by simp
  qed
qed


text \<open>What the loop leaves under a key, when no two fields of the mapping share a name.\<close>

lemma loop_map_of:
  assumes "distinct (map fst m)"
  shows "map_of (fst (applyMapping_loop H d m (r, w))) k =
           (case map_of m k of
              None \<Rightarrow> map_of r k
            | Some cfg \<Rightarrow>
                (case kept (field_value H d cfg) of Some v \<Rightarrow> Some v | None \<Rightarrow> map_of r k))"
  using assms
proof (induction m arbitrary: r w)
  case Nil
  show ?case by simp
next
  case (Cons x m)
  obtain f cfg where x: "x = (f, cfg)" by (cases x)
  from Cons.prems have d: "distinct (map fst m)" and nf: "map_of m f = None"
    unfolding x by (simp_all add: map_of_eq_None_iff)
  note IH = Cons.IH [OF d]
  show ?case
  proof (cases "field_value H d cfg")
    case (Inl e)
    then show ?thesis unfolding x using nf by (simp add: IH kept_def)
  next
    case (Inr v)
    then show ?thesis unfolding x using nf
      by (auto simp: IH update_conv' kept_def simp del: AList.update.simps
               split: option.split sum.split)
  qed
qed

lemma applyMapping_map_of:
  assumes "distinct (map fst m)"
  shows "map_of (fst (applyMapping H d m)) k =
           (case map_of m k of
              None \<Rightarrow> None
            | Some cfg \<Rightarrow> kept (field_value H d cfg))"
  unfolding applyMapping_def using loop_map_of [OF assms, of H d "[]" "[]" k]
  by (simp split: option.split)





text \<open>
  C3. For every payload and every mapping, no field of the output of \<open>applyMapping\<close> has the
  value \<open>null\<close> or \<open>undefined\<close>; a field whose computed value is one of them is left out
  of the output (no other field of the mapping having its name).
\<close>

theorem applyMapping_no_null:
  "((k, v) \<in> set (fst (applyMapping H data m)) \<longrightarrow> v \<noteq> JNull \<and> v \<noteq> JUndefined)
   \<and> (distinct (map fst m) \<and> map_of m f = Some cfg
        \<and> (field_value H data cfg = Inr JNull \<or> field_value H data cfg = Inr JUndefined)
      \<longrightarrow> map_of (fst (applyMapping H data m)) f = None)"
proof (rule conjI)
  show "(k, v) \<in> set (fst (applyMapping H data m)) \<longrightarrow> v \<noteq> JNull \<and> v \<noteq> JUndefined"
    unfolding applyMapping_def using loop_values [of "[]" H data m "[]"] by auto
  show "distinct (map fst m) \<and> map_of m f = Some cfg
        \<and> (field_value H data cfg = Inr JNull \<or> field_value H data cfg = Inr JUndefined)
      \<longrightarrow> map_of (fst (applyMapping H data m)) f = None"
  proof (rule impI)
    assume a: "distinct (map fst m) \<and> map_of m f = Some cfg
        \<and> (field_value H data cfg = Inr JNull \<or> field_value H data cfg = Inr JUndefined)"
    then have "kept (field_value H data cfg) = None"
      by (auto simp: kept_def)
    with a show "map_of (fst (applyMapping H data m)) f = None"
      by (simp add: applyMapping_map_of)
  qed
qed

theorem applyMapping_no_null_witness:
  "(ascii ''name'', JStr (lit_lead @ ascii '': 79990001234''))
     \<in> set (fst (applyMapping no_config sample_payload (leadMapping no_config)))
   \<and> JStr (lit_lead @ ascii '': 79990001234'') \<noteq> JNull
   \<and> JStr (lit_lead @ ascii '': 79990001234'') \<noteq> JUndefined
   \<and> map_of (fst (applyMapping no_config sample_payload (leadMapping no_config))) (ascii ''pipeline_id'')
       = None"
proof -
  let ?cfg = "\<lparr>source = ascii ''static'', static_value = JNull, transform = None\<rparr>"
  have h: "(ascii ''name'', JStr (lit_lead @ ascii '': 79990001234''))
             \<in> set (fst (applyMapping no_config sample_payload (leadMapping no_config)))"
    by (simp add: eval_defs sample_defs)
  have d: "distinct (map fst (leadMapping no_config))
           \<and> map_of (leadMapping no_config) (ascii ''pipeline_id'') = Some ?cfg
           \<and> (field_value no_config sample_payload ?cfg = Inr JNull
               \<or> field_value no_config sample_payload ?cfg = Inr JUndefined)"
    by (simp add: eval_defs sample_defs)
  note t = applyMapping_no_null [of "ascii ''name''" "JStr (lit_lead @ ascii '': 79990001234'')"
                                    no_config sample_payload "leadMapping no_config"
                                    "ascii ''pipeline_id''" ?cfg]
  have 1: "JStr (lit_lead @ ascii '': 79990001234'') \<noteq> JNull
           \<and> JStr (lit_lead @ ascii '': 79990001234'') \<noteq> JUndefined"
    by (rule mp [OF t [THEN conjunct1] h])
  have 2: "map_of (fst (applyMapping no_config sample_payload (leadMapping no_config))) (ascii ''pipeline_id'')
             = None"
    by (rule mp [OF t [THEN conjunct2] d])
  from h 1 2 show ?thesis by simp
qed



section \<open>Properties of the two mappings\<close>

text \<open>Under the names of the webhook a read is decided by the own properties.\<close>

lemma member_off_chain: "off_chain v k \<Longrightarrow> member H v k = Inr (lookup v k)"
  by (simp add: member_def lookup_def split: option.split)

lemma webhook_name:
  "ascii ''call'' \<in> set webhook_names" "ascii ''agreements'' \<in> set webhook_names"
  "ascii ''price'' \<in> set webhook_names" "ascii ''client_name'' \<in> set webhook_names"
  by (simp_all add: webhook_names_def)

lemma not_call:
  "ascii ''agreements'' \<noteq> ascii ''call''" "ascii ''price'' \<noteq> ascii ''call''"
  "ascii ''client_name'' \<noteq> ascii ''call''"
  by (simp_all add: ascii_def)

lemma off_chain_payload: "\<not> is_host v \<Longrightarrow> k \<in> set webhook_names \<Longrightarrow> off_chain v k"
  by (simp add: off_chain_def)

lemma off_chain_not_call:
  "k \<in> set webhook_names \<Longrightarrow> k \<noteq> ascii ''call'' \<Longrightarrow> off_chain v k"
  by (simp add: off_chain_def)

lemma step_off_chain:
  assumes "off_chain v k"
  shows "path_step H (Inr v) k
           = Inr (if truthy v \<and> lookup v k \<noteq> JUndefined then lookup v k else JNull)"
  by (simp add: path_step_Inr member_off_chain [OF assms])

lemma walk3:
  assumes "\<not> is_host data"
    and "k2 \<in> set webhook_names" and "k2 \<noteq> ascii ''call''"
    and "k3 \<in> set webhook_names" and "k3 \<noteq> ascii ''call''"
  shows "walk H data [ascii ''call'', k2, k3] =
     Inr (if truthy data \<and> lookup data (ascii ''call'') \<noteq> JUndefined
             \<and> truthy (lookup data (ascii ''call''))
             \<and> lookup (lookup data (ascii ''call'')) k2 \<noteq> JUndefined
             \<and> truthy (lookup (lookup data (ascii ''call'')) k2)
             \<and> lookup (lookup (lookup data (ascii ''call'')) k2) k3 \<noteq> JUndefined
          then lookup (lookup (lookup data (ascii ''call'')) k2) k3 else JNull)"
proof -
  have 1: "off_chain data (ascii ''call'')"
    using assms(1) by (rule off_chain_payload) (rule webhook_name)
  have 2: "off_chain v k2" for v
    using assms(2,3) by (rule off_chain_not_call)
  have 3: "off_chain v k3" for v
    using assms(4,5) by (rule off_chain_not_call)
  show ?thesis
    by (simp add: walk_Cons walk_Nil walk_JNull step_off_chain [OF 1] step_off_chain [OF 2]
                  step_off_chain [OF 3])
qed

text \<open>On an object of the runtime the path of a mapping leads nowhere.\<close>

lemma lookup_hostval_agreements: "lookup (of_hostval x) (ascii ''agreements'') = JUndefined"
  by (cases x) (simp_all add: lookup_def ascii_def array_index_def is_digit_def)

lemma walk3_host_root:
  assumes "is_host data"
    and "k3 \<in> set webhook_names" and "k3 \<noteq> ascii ''call''"
  shows "walk H data [ascii ''call'', ascii ''agreements'', k3] = Inr JNull
         \<or> (\<exists>e. walk H data [ascii ''call'', ascii ''agreements'', k3] = Inl e)"
proof -
  obtain h where d: "data = JHost h" using assms(1) by (cases data) auto
  have m: "member H data (ascii ''call'')
             = (case inherited H data (ascii ''call'') of
                  Inl e \<Rightarrow> Inl e | Inr x \<Rightarrow> Inr (of_hostval x))"
    unfolding d by (simp add: member_def off_chain_def)
  have 2: "off_chain v (ascii ''agreements'')" for v
    by (rule off_chain_not_call) (rule webhook_name not_call)+
  show ?thesis
  proof (cases "inherited H data (ascii ''call'')")
    case (Inl e)
    then show ?thesis
      unfolding d by (simp add: walk_Cons path_step_Inr m [unfolded d])
  next
    case (Inr x)
    then have "walk H data [ascii ''call'', ascii ''agreements'', k3] = Inr JNull"
      unfolding d
      by (simp add: walk_Cons walk_Nil walk_JNull path_step_Inr m [unfolded d]
                    member_off_chain [OF 2] lookup_hostval_agreements)
    then show ?thesis by simp
  qed
qed

lemma lookup_defined_truthy:
  assumes "lookup v k \<noteq> JUndefined" and "k \<noteq> ascii ''length''"
  shows "truthy v"
proof (cases v)
  case (JStr s)
  with assms show ?thesis
    by (cases "s = []") (auto simp: lookup_def split: option.splits if_splits)
qed (use assms in \<open>auto simp: lookup_def\<close>)

lemma lookup_nullish: "lookup JNull k = JUndefined" "lookup JUndefined k = JUndefined"
  by (simp_all add: lookup_def)

lemma lookup_defined_not_host: "lookup v k \<noteq> JUndefined \<Longrightarrow> \<not> is_host v"
  by (cases v) (simp_all add: lookup_def)

lemma key_not_length:
  "ascii ''call'' \<noteq> ascii ''length''" "ascii ''agreements'' \<noteq> ascii ''length''"
  "ascii ''price'' \<noteq> ascii ''length''" "ascii ''client_name'' \<noteq> ascii ''length''"
  "ascii ''contact'' \<noteq> ascii ''length''" "ascii ''phone'' \<noteq> ascii ''length''"
  "ascii ''additionalFields'' \<noteq> ascii ''length''" "ascii ''email'' \<noteq> ascii ''length''"
  by (simp_all add: ascii_def)

lemma walk3_resolves:
  assumes "lookup (lookup (lookup data (ascii ''call'')) k2) k3 = v" and "v \<noteq> JUndefined"
    and "k2 \<in> set webhook_names" and "k2 \<noteq> ascii ''call''" and "k2 \<noteq> ascii ''length''"
    and "k3 \<in> set webhook_names" and "k3 \<noteq> ascii ''call''" and "k3 \<noteq> ascii ''length''"
  shows "walk H data [ascii ''call'', k2, k3] = Inr v"
proof -
  have 3: "truthy (lookup (lookup data (ascii ''call'')) k2)"
    using assms(1,2,8) lookup_defined_truthy by blast
  then have "lookup (lookup data (ascii ''call'')) k2 \<noteq> JUndefined" by auto
  then have 2: "truthy (lookup data (ascii ''call''))"
    using assms(5) lookup_defined_truthy by blast
  then have u: "lookup data (ascii ''call'') \<noteq> JUndefined" by auto
  then have 1: "truthy data"
    using key_not_length(1) lookup_defined_truthy by blast
  have "\<not> is_host data"
    using u by (rule lookup_defined_not_host)
  from walk3 [OF this assms(3,4,6,7)] 1 2 3 assms(1,2) show ?thesis
    by auto
qed

lemma walk3_falsy:
  assumes "\<not> truthy (lookup (lookup (lookup data (ascii ''call'')) k2) k3)"
    and "\<not> is_host data"
    and "k2 \<in> set webhook_names" and "k2 \<noteq> ascii ''call''"
    and "k3 \<in> set webhook_names" and "k3 \<noteq> ascii ''call''"
  shows "\<exists>w. walk H data [ascii ''call'', k2, k3] = Inr w \<and> \<not> truthy w"
  using assms(1) unfolding walk3 [OF assms(2-6)] by auto

lemma path_call_agreements_agreements:
  "getValueByPath H data (ascii ''call.agreements.agreements'')
     = walk H data [ascii ''call'', ascii ''agreements'', ascii ''agreements'']"
  by (simp add: getValueByPath_def ascii_def)

lemma path_call_agreements_price:
  "getValueByPath H data (ascii ''call.agreements.price'')
     = walk H data [ascii ''call'', ascii ''agreements'', ascii ''price'']"
  by (simp add: getValueByPath_def ascii_def)

lemma path_call_agreements_client_name:
  "getValueByPath H data (ascii ''call.agreements.client_name'')
     = walk H data [ascii ''call'', ascii ''agreements'', ascii ''client_name'']"
  by (simp add: getValueByPath_def ascii_def)

lemma leadMapping_distinct: "distinct (map fst (leadMapping H))"
  by (simp add: leadMapping_def ascii_def)

lemma contactMapping_distinct: "distinct (map fst (contactMapping H))"
  by (simp add: contactMapping_def ascii_def)

lemma lead_name_field:
  "map_of (fst (applyMapping H data (leadMapping H))) (ascii ''name'')
     = kept (case walk H data [ascii ''call'', ascii ''agreements'', ascii ''agreements''] of
               Inl e \<Rightarrow> Inl e
             | Inr raw \<Rightarrow> leadMapping_name_transform H raw data)"
proof -
  have m: "map_of (leadMapping H) (ascii ''name'')
             = Some \<lparr>source = ascii ''call.agreements.agreements'', static_value = JUndefined,
                     transform = Some (leadMapping_name_transform H)\<rparr>"
    by (simp add: leadMapping_def)
  have s: "ascii ''call.agreements.agreements'' \<noteq> ascii ''static''"
          "ascii ''call.agreements.agreements'' \<noteq> ascii ''multiple''"
    by (simp_all add: ascii_def)
  show ?thesis
    unfolding applyMapping_map_of [OF leadMapping_distinct] m
    by (simp add: field_value_def s path_call_agreements_agreements split: sum.split)
qed

lemma lead_price_field:
  "map_of (fst (applyMapping H data (leadMapping H))) (ascii ''price'')
     = kept (case walk H data [ascii ''call'', ascii ''agreements'', ascii ''price''] of
               Inl e \<Rightarrow> Inl e
             | Inr raw \<Rightarrow> leadMapping_price_transform H raw data)"
proof -
  have m: "map_of (leadMapping H) (ascii ''price'')
             = Some \<lparr>source = ascii ''call.agreements.price'', static_value = JUndefined,
                     transform = Some (leadMapping_price_transform H)\<rparr>"
    by (simp add: leadMapping_def ascii_def)
  have s: "ascii ''call.agreements.price'' \<noteq> ascii ''static''"
          "ascii ''call.agreements.price'' \<noteq> ascii ''multiple''"
    by (simp_all add: ascii_def)
  show ?thesis
    unfolding applyMapping_map_of [OF leadMapping_distinct] m
    by (simp add: field_value_def s path_call_agreements_price split: sum.split)
qed

lemma lead_pipeline_field:
  "map_of (fst (applyMapping H data (leadMapping H))) (ascii ''pipeline_id'')
     = kept (Inr (env_or_null H (ascii ''AMOCRM_PIPELINE_ID'')))"
proof -
  have m: "map_of (leadMapping H) (ascii ''pipeline_id'')
             = Some \<lparr>source = ascii ''static'', static_value = env_or_null H (ascii ''AMOCRM_PIPELINE_ID''),
                     transform = None\<rparr>"
    by (simp add: leadMapping_def ascii_def)
  show ?thesis
    unfolding applyMapping_map_of [OF leadMapping_distinct] m
    by (simp add: field_value_def)
qed


lemma contact_custom_fields_field:
  "map_of (fst (applyMapping H data (contactMapping H))) (ascii ''custom_fields_values'')
     = kept (contactMapping_custom_fields_values_transform H JNull data)"
proof -
  have m: "map_of (contactMapping H) (ascii ''custom_fields_values'')
             = Some \<lparr>source = ascii ''multiple'', static_value = JUndefined,
                     transform = Some (contactMapping_custom_fields_values_transform H)\<rparr>"
    by (simp add: contactMapping_def ascii_def)
  have s: "ascii ''multiple'' \<noteq> ascii ''static''"
    by (simp add: ascii_def)
  show ?thesis
    unfolding applyMapping_map_of [OF contactMapping_distinct] m
    by (simp add: field_value_def s)
qed

subsection \<open>The name of the lead\<close>

lemma name_transform_string:
  assumes "s \<noteq> []"
  shows "leadMapping_name_transform H (JStr s) data
           = Inr (JStr (if 250 < length s then take 247 s @ ascii ''...'' else s))"
  using assms by (simp add: leadMapping_name_transform_def lookup_def to_number_def)

text \<open>
  C5 (as amended). When \<open>call.agreements.agreements\<close> is a string of more than 250 code
  units, the name of the lead is its first 247 code units followed by three dots, 250 in
  all. A string that is not empty and has at most 250 code units is the name unchanged.
  (The empty string is not: the name falls back to the default.)
\<close>

theorem lead_name_truncated:
  assumes "lookup (lookup (lookup data (ascii ''call'')) (ascii ''agreements''))
             (ascii ''agreements'') = JStr s"
  shows "(250 < length s \<longrightarrow>
            map_of (fst (applyMapping H data (leadMapping H))) (ascii ''name'')
              = Some (JStr (take 247 s @ ascii ''...''))
            \<and> length (take 247 s @ ascii ''...'') = 250)
       \<and> (s \<noteq> [] \<and> length s \<le> 250 \<longrightarrow>
            map_of (fst (applyMapping H data (leadMapping H))) (ascii ''name'') = Some (JStr s))"
proof -
  have w: "walk H data [ascii ''call'', ascii ''agreements'', ascii ''agreements''] = Inr (JStr s)"
    using assms by (rule walk3_resolves) (simp_all add: key_not_length webhook_name not_call)
  have l: "length (ascii ''...'') = 3"
    by (simp add: ascii_def)
  show ?thesis
  proof (intro conjI impI)
    assume g: "250 < length s"
    then have "s \<noteq> []" by auto
    with g show "map_of (fst (applyMapping H data (leadMapping H))) (ascii ''name'')
              = Some (JStr (take 247 s @ ascii ''...''))"
      by (simp add: lead_name_field w name_transform_string kept_def)
    from g show "length (take 247 s @ ascii ''...'') = 250"
      by (simp add: l)
  next
    assume "s \<noteq> [] \<and> length s \<le> 250"
    then show "map_of (fst (applyMapping H data (leadMapping H))) (ascii ''name'') = Some (JStr s)"
      by (simp add: lead_name_field w name_transform_string kept_def)
  qed
qed

theorem lead_name_truncated_witness:
  "map_of (fst (applyMapping no_config long_agreements_payload (leadMapping no_config))) (ascii ''name'')
     = Some (JStr (replicate 247 88 @ ascii ''...''))
   \<and> map_of (fst (applyMapping no_config short_agreements_payload (leadMapping no_config))) (ascii ''name'')
     = Some (JStr (ascii ''call back''))"
proof -
  have h1: "lookup (lookup (lookup long_agreements_payload (ascii ''call'')) (ascii ''agreements''))
             (ascii ''agreements'') = JStr (replicate 300 88)"
    by (simp add: long_agreements_payload_def lookup_def)
  have h2: "lookup (lookup (lookup short_agreements_payload (ascii ''call'')) (ascii ''agreements''))
             (ascii ''agreements'') = JStr (ascii ''call back'')"
    by (simp add: short_agreements_payload_def lookup_def)
  have n: "ascii ''call back'' \<noteq> [] \<and> length (ascii ''call back'') \<le> 250"
    by (simp add: ascii_def)
  from lead_name_truncated [OF h1, of no_config] lead_name_truncated [OF h2, of no_config] n
  show ?thesis by simp
qed

theorem lead_name_empty_string_counterexample:
  "lookup (lookup (lookup empty_agreements_payload (ascii ''call'')) (ascii ''agreements''))
     (ascii ''agreements'') = JStr []
   \<and> map_of (fst (applyMapping no_config empty_agreements_payload (leadMapping no_config))) (ascii ''name'')
       = Some (JStr (lit_lead @ ascii '': 79990001234''))
   \<and> map_of (fst (applyMapping no_config empty_agreements_payload (leadMapping no_config))) (ascii ''name'')
       \<noteq> Some (JStr [])"
  by (simp add: eval_defs sample_defs)

lemma nullish_lookup:
  assumes "lookup v k \<noteq> JUndefined"
  shows "v \<noteq> JUndefined" and "v \<noteq> JNull"
  using assms by (auto simp: lookup_def)

text \<open>
  C8 (as amended). When \<open>call.agreements\<close> holds neither an agreements text nor a client
  name, and \<open>contact.phone\<close> is \<open>79990001234\<close>, the name of the lead is the Russian literal
  of the source ("Lid ot AI menedzhera", lead from the AI manager) followed by a colon, a
  space and the phone.
\<close>

theorem lead_name_from_phone:
  assumes "\<not> truthy (lookup (lookup (lookup data (ascii ''call'')) (ascii ''agreements''))
                        (ascii ''agreements''))"
    and "\<not> truthy (lookup (lookup (lookup data (ascii ''call'')) (ascii ''agreements''))
                        (ascii ''client_name''))"
    and "lookup (lookup data (ascii ''contact'')) (ascii ''phone'') = JStr (ascii ''79990001234'')"
  shows "map_of (fst (applyMapping H data (leadMapping H))) (ascii ''name'')
           = Some (JStr (lit_lead @ ascii '': '' @ ascii ''79990001234''))"
proof -
  have c: "lookup data (ascii ''contact'') \<noteq> JUndefined"
    using assms(3) by (auto simp: lookup_nullish)
  then have d: "data \<noteq> JUndefined" "data \<noteq> JNull"
    by (rule nullish_lookup)+
  have "\<not> is_host data"
    using c by (rule lookup_defined_not_host)
  with assms(1)
  have "\<exists>w. walk H data [ascii ''call'', ascii ''agreements'', ascii ''agreements''] = Inr w
            \<and> \<not> truthy w"
    by (rule walk3_falsy) (rule webhook_name not_call)+
  then obtain w
    where w: "walk H data [ascii ''call'', ascii ''agreements'', ascii ''agreements''] = Inr w"
      and f: "\<not> truthy w"
    by blast
  have p: "truthy (JStr (ascii ''79990001234''))"
    by (simp add: ascii_def)
  have "leadMapping_name_transform H w data
          = Inr (JStr (lit_lead @ ascii '': '' @ ascii ''79990001234''))"
    using f d assms(2,3) p
    by (simp add: leadMapping_name_transform_def js_get_def)
  then show ?thesis
    by (simp add: lead_name_field w kept_def)
qed

theorem lead_name_from_phone_witness:
  "map_of (fst (applyMapping no_config sample_payload (leadMapping no_config))) (ascii ''name'')
     = Some (JStr (lit_lead @ ascii '': 79990001234''))"
proof -
  have h1: "\<not> truthy (lookup (lookup (lookup sample_payload (ascii ''call'')) (ascii ''agreements''))
                        (ascii ''agreements''))"
    by (simp add: sample_payload_def lookup_def ascii_def)
  have h2: "\<not> truthy (lookup (lookup (lookup sample_payload (ascii ''call'')) (ascii ''agreements''))
                        (ascii ''client_name''))"
    by (simp add: sample_payload_def lookup_def ascii_def)
  have h3: "lookup (lookup sample_payload (ascii ''contact'')) (ascii ''phone'')
              = JStr (ascii ''79990001234'')"
    by (simp add: sample_payload_def lookup_def)
  have e: "ascii '': '' @ ascii ''79990001234'' = ascii '': 79990001234''"
    by (simp add: ascii_def)
  from lead_name_from_phone [OF h1 h2 h3, of no_config] e show ?thesis by simp
qed

theorem lead_name_english_counterexample:
  "lookup (lookup sample_payload (ascii ''call'')) (ascii ''agreements'') = JObj []
   \<and> lookup (lookup sample_payload (ascii ''contact'')) (ascii ''phone'')
       = JStr (ascii ''79990001234'')
   \<and> map_of (fst (applyMapping no_config sample_payload (leadMapping no_config))) (ascii ''name'')
       \<noteq> Some (JStr (ascii ''Lead from AI manager: 79990001234''))"
  by (simp add: eval_defs sample_defs)

subsection \<open>The price of the lead\<close>

lemma digit_not_space: "is_digit c \<Longrightarrow> \<not> is_space c"
  by (auto simp: is_digit_def is_space_def)

lemma parseInt_decimal_prefix:
  assumes ne: "ds \<noteq> []" and dg: "list_all is_digit ds"
    and rest: "rest = [] \<or> \<not> is_digit (hd rest)"
    and nohex: "\<not> (ds = [48] \<and> rest \<noteq> [] \<and> (hd rest = 120 \<or> hd rest = 88))"
    and bound: "dec_value ds < 2 ^ 53"
  shows "parseInt H (ds @ rest) = Num (int (dec_value ds))"
proof -
  obtain d ds' where ds: "ds = d # ds'" using ne by (cases ds) auto
  have d: "is_digit d" using dg ds by simp
  then have nsp: "\<not> is_space d" by (rule digit_not_space)
  have s: "dropWhile is_space (ds @ rest) = ds @ rest"
    using nsp ds by simp
  have sign: "(hd (ds @ rest) = 45) = False" "(hd (ds @ rest) = 43) = False"
    using d ds by (auto simp: is_digit_def)
  have hex: "(2 \<le> length (ds @ rest) \<and> (ds @ rest) ! 0 = 48
                 \<and> ((ds @ rest) ! 1 = 120 \<or> (ds @ rest) ! 1 = 88)) = False"
  proof (cases ds')
    case Nil
    show ?thesis
    proof (cases rest)
      case Nil
      with \<open>ds' = []\<close> ds show ?thesis by simp
    next
      case (Cons r rs)
      with \<open>ds' = []\<close> ds nohex show ?thesis by auto
    qed
  next
    case (Cons e es)
    with dg ds have "is_digit e" by simp
    then have "e \<noteq> 120" "e \<noteq> 88" by (auto simp: is_digit_def)
    with Cons ds show ?thesis by simp
  qed
  have tw: "takeWhile is_digit (ds @ rest) = ds"
  proof -
    have "\<forall>x\<in>set ds. is_digit x" using dg by (simp add: list_all_iff)
    then have "takeWhile is_digit (ds @ rest) = ds @ takeWhile is_digit rest"
      by (simp add: takeWhile_append2)
    moreover have "takeWhile is_digit rest = []"
      using rest by (cases rest) auto
    ultimately show ?thesis by simp
  qed
  have nn: "(ds @ rest = []) = False" "(ds = []) = False" using ne by simp_all
  have sf: "number_of_int H (int (dec_value ds)) = Num (int (dec_value ds))"
    using bound by (simp add: number_of_int_def safe_def)
  show ?thesis
    unfolding parseInt_def Let_def s
    by (simp only: sign hex tw nn sf simp_thms if_False if_True)
qed

text \<open>The first integer that is not a double: sixteen digits that \<open>parseInt\<close> hands to
  the host, which rounds them to the even neighbour.\<close>

lemma excess_bits_beyond_safe: "excess_bits 9007199254740993 = Suc 0"
  by (simp add: excess_bits.simps)

lemma nearest_double_beyond_safe: "nearest_double 9007199254740993 = Num 9007199254740992"
  by (simp add: nearest_double_def excess_bits_beyond_safe)

lemma parseInt_beyond_safe:
  "parseInt H (ascii ''9007199254740993'') = bigInt H 9007199254740993"
  by (simp add: parseInt_def ascii_def is_space_def is_digit_def Let_def dec_value_def
                number_of_int_def safe_def)

lemma price_transform_falsy: "\<not> truthy v \<Longrightarrow> leadMapping_price_transform H v data = Inr JNull"
  by (simp add: leadMapping_price_transform_def)

lemma price_transform_string:
  "s \<noteq> [] \<Longrightarrow> leadMapping_price_transform H (JStr s) data
     = Inr (case parseInt H s of NaN \<Rightarrow> JNull | PosInf \<Rightarrow> JNum PosInf
            | NegInf \<Rightarrow> JNum NegInf | Num n \<Rightarrow> JNum (Num n))"
  by (simp add: leadMapping_price_transform_def split: jsnum.split)

lemma price_payload_price:
  "lookup (lookup (lookup (price_payload v) (ascii ''call'')) (ascii ''agreements''))
     (ascii ''price'') = v"
  by (simp add: price_payload_def lookup_def)

text \<open>
  C10 (as amended). Every falsy raw value of \<open>call.agreements.price\<close>, the number 0
  included, gives \<open>null\<close>, and the lead has no price. A string that starts with decimal
  digits gives the number these digits denote (\<open>"0"\<close> gives 0, \<open>"12abc"\<close> gives 12),
  as long as that number is below \<open>2^53\<close>, and unless the string starts with \<open>0x\<close> or
  \<open>0X\<close>, which \<open>parseInt\<close> reads as the prefix of a hexadecimal number.
\<close>

theorem lead_price_rule:
  "(\<not> truthy v \<longrightarrow> leadMapping_price_transform H v data = Inr JNull)
   \<and> (\<not> truthy (lookup (lookup (lookup data (ascii ''call'')) (ascii ''agreements''))
                    (ascii ''price''))
        \<longrightarrow> map_of (fst (applyMapping H data (leadMapping H))) (ascii ''price'') = None)
   \<and> (lookup (lookup (lookup data (ascii ''call'')) (ascii ''agreements'')) (ascii ''price'')
          = JStr (ds @ rest)
        \<and> ds \<noteq> [] \<and> list_all is_digit ds \<and> (rest = [] \<or> \<not> is_digit (hd rest))
        \<and> \<not> (ds = [48] \<and> rest \<noteq> [] \<and> (hd rest = 120 \<or> hd rest = 88))
        \<and> dec_value ds < 2 ^ 53
        \<longrightarrow> map_of (fst (applyMapping H data (leadMapping H))) (ascii ''price'')
              = Some (JNum (Num (int (dec_value ds)))))"
proof (intro conjI impI)
  assume "\<not> truthy v"
  then show "leadMapping_price_transform H v data = Inr JNull"
    by (rule price_transform_falsy)
next
  assume f: "\<not> truthy (lookup (lookup (lookup data (ascii ''call'')) (ascii ''agreements''))
                    (ascii ''price''))"
  show "map_of (fst (applyMapping H data (leadMapping H))) (ascii ''price'') = None"
  proof (cases "is_host data")
    case True
    then have "walk H data [ascii ''call'', ascii ''agreements'', ascii ''price''] = Inr JNull
         \<or> (\<exists>e. walk H data [ascii ''call'', ascii ''agreements'', ascii ''price''] = Inl e)"
      by (rule walk3_host_root) (rule webhook_name not_call)+
    then show ?thesis
      by (auto simp: lead_price_field price_transform_falsy kept_def)
  next
    case False
    with f
    have "\<exists>w. walk H data [ascii ''call'', ascii ''agreements'', ascii ''price''] = Inr w
              \<and> \<not> truthy w"
      by (rule walk3_falsy) (rule webhook_name not_call)+
    then show ?thesis
      by (auto simp: lead_price_field price_transform_falsy kept_def)
  qed
next
  assume a: "lookup (lookup (lookup data (ascii ''call'')) (ascii ''agreements'')) (ascii ''price'')
          = JStr (ds @ rest)
        \<and> ds \<noteq> [] \<and> list_all is_digit ds \<and> (rest = [] \<or> \<not> is_digit (hd rest))
        \<and> \<not> (ds = [48] \<and> rest \<noteq> [] \<and> (hd rest = 120 \<or> hd rest = 88))
        \<and> dec_value ds < 2 ^ 53"
  from a have l: "lookup (lookup (lookup data (ascii ''call'')) (ascii ''agreements''))
                    (ascii ''price'') = JStr (ds @ rest)"
    by (rule conjunct1)
  from a have ne: "ds \<noteq> []" by blast
  from a have dg: "list_all is_digit ds" by blast
  from a have r: "rest = [] \<or> \<not> is_digit (hd rest)" by blast
  from a have nh: "\<not> (ds = [48] \<and> rest \<noteq> [] \<and> (hd rest = 120 \<or> hd rest = 88))" by blast
  from a have bd: "dec_value ds < 2 ^ 53" by blast
  have w: "walk H data [ascii ''call'', ascii ''agreements'', ascii ''price'']
             = Inr (JStr (ds @ rest))"
    using l by (rule walk3_resolves) (simp_all add: key_not_length webhook_name not_call)
  have p: "parseInt H (ds @ rest) = Num (int (dec_value ds))"
    using ne dg r nh bd by (rule parseInt_decimal_prefix)
  have "ds @ rest \<noteq> []" using ne by simp
  then have "leadMapping_price_transform H (JStr (ds @ rest)) data
               = Inr (JNum (Num (int (dec_value ds))))"
    by (simp add: price_transform_string p)
  then show "map_of (fst (applyMapping H data (leadMapping H))) (ascii ''price'')
              = Some (JNum (Num (int (dec_value ds))))"
    by (simp add: lead_price_field w kept_def)
qed

theorem lead_price_rule_witness:
  "leadMapping_price_transform no_config (JNum (Num 0)) (price_payload (JNum (Num 0))) = Inr JNull
   \<and> map_of (fst (applyMapping no_config (price_payload (JNum (Num 0))) (leadMapping no_config)))
        (ascii ''price'') = None
   \<and> map_of (fst (applyMapping no_config (price_payload (JStr (ascii ''0''))) (leadMapping no_config)))
        (ascii ''price'') = Some (JNum (Num 0))
   \<and> map_of (fst (applyMapping no_config (price_payload (JStr (ascii ''12abc''))) (leadMapping no_config)))
        (ascii ''price'') = Some (JNum (Num 12))"
proof -
  note l = price_payload_price
  have f: "\<not> truthy (JNum (Num 0))" by simp
  have f': "\<not> truthy (lookup (lookup (lookup (price_payload (JNum (Num 0))) (ascii ''call''))
                         (ascii ''agreements'')) (ascii ''price''))"
    unfolding l by simp
  have e0: "ascii ''0'' = ascii ''0'' @ []" by simp
  have e12: "ascii ''12abc'' = ascii ''12'' @ ascii ''abc''" by (simp add: ascii_def)
  have z: "lookup (lookup (lookup (price_payload (JStr (ascii ''0''))) (ascii ''call''))
             (ascii ''agreements'')) (ascii ''price'') = JStr (ascii ''0'' @ [])
           \<and> ascii ''0'' \<noteq> [] \<and> list_all is_digit (ascii ''0'') \<and> ([] = [] \<or> \<not> is_digit (hd []))
           \<and> \<not> (ascii ''0'' = [48] \<and> ([]::jsstring) \<noteq> [] \<and> (hd [] = 120 \<or> hd [] = 88))
           \<and> dec_value (ascii ''0'') < 2 ^ 53"
    unfolding l by (simp add: ascii_def is_digit_def dec_value_def)
  have t: "lookup (lookup (lookup (price_payload (JStr (ascii ''12abc''))) (ascii ''call''))
             (ascii ''agreements'')) (ascii ''price'') = JStr (ascii ''12'' @ ascii ''abc'')
           \<and> ascii ''12'' \<noteq> [] \<and> list_all is_digit (ascii ''12'')
           \<and> (ascii ''abc'' = [] \<or> \<not> is_digit (hd (ascii ''abc'')))
           \<and> \<not> (ascii ''12'' = [48] \<and> ascii ''abc'' \<noteq> []
                 \<and> (hd (ascii ''abc'') = 120 \<or> hd (ascii ''abc'') = 88))
           \<and> dec_value (ascii ''12'') < 2 ^ 53"
    unfolding l by (simp add: ascii_def is_digit_def dec_value_def)
  have v0: "dec_value (ascii ''0'') = 0" and v12: "dec_value (ascii ''12'') = 12"
    by (simp_all add: dec_value_def ascii_def)
  note r = lead_price_rule [of "JNum (Num 0)" no_config "price_payload (JNum (Num 0))" "[]" "[]"]
  note r0 = lead_price_rule [of JNull no_config "price_payload (JStr (ascii ''0''))"
                               "ascii ''0''" "[]"]
  note r12 = lead_price_rule [of JNull no_config "price_payload (JStr (ascii ''12abc''))"
                                "ascii ''12''" "ascii ''abc''"]
  have 1: "leadMapping_price_transform no_config (JNum (Num 0)) (price_payload (JNum (Num 0))) = Inr JNull"
    by (rule mp [OF r [THEN conjunct1] f])
  have 2: "map_of (fst (applyMapping no_config (price_payload (JNum (Num 0))) (leadMapping no_config)))
        (ascii ''price'') = None"
    by (rule mp [OF r [THEN conjunct2, THEN conjunct1] f'])
  have 3: "map_of (fst (applyMapping no_config (price_payload (JStr (ascii ''0''))) (leadMapping no_config)))
        (ascii ''price'') = Some (JNum (Num (int (dec_value (ascii ''0'')))))"
    by (rule mp [OF r0 [THEN conjunct2, THEN conjunct2] z])
  have 4: "map_of (fst (applyMapping no_config (price_payload (JStr (ascii ''12abc''))) (leadMapping no_config)))
        (ascii ''price'') = Some (JNum (Num (int (dec_value (ascii ''12'')))))"
    by (rule mp [OF r12 [THEN conjunct2, THEN conjunct2] t])
  from 1 2 3 4 show ?thesis
    unfolding v0 v12 by simp
qed

theorem lead_price_hex_prefix_counterexample:
  "map_of (fst (applyMapping no_config (price_payload (JStr (ascii ''0xg'')))
                  (leadMapping no_config))) (ascii ''price'') = None
   \<and> map_of (fst (applyMapping no_config (price_payload (JStr (ascii ''0x1F'')))
                    (leadMapping no_config))) (ascii ''price'') = Some (JNum (Num 31))
   \<and> map_of (fst (applyMapping no_config (price_payload (JStr (ascii ''9007199254740993'')))
                    (leadMapping no_config))) (ascii ''price'')
       = Some (JNum (Num 9007199254740992))"
proof -
  have p1: "parseInt no_config (ascii ''0xg'') = NaN"
    by (simp add: parseInt_def ascii_def is_space_def is_digit_def is_hex_digit_def Let_def)
  have p2: "parseInt no_config (ascii ''0x1F'') = Num 31"
    by (simp add: parseInt_def ascii_def is_space_def is_digit_def is_hex_digit_def Let_def
                  hex_value_def hex_digit_value_def number_of_int_def safe_def)
  have p3: "parseInt no_config (ascii ''9007199254740993'') = Num 9007199254740992"
    by (simp add: parseInt_beyond_safe nearest_double_beyond_safe no_config_def)
  have n: "ascii ''0xg'' \<noteq> []" "ascii ''0x1F'' \<noteq> []" "ascii ''9007199254740993'' \<noteq> []"
          "JStr (ascii ''0xg'') \<noteq> JUndefined" "JStr (ascii ''0x1F'') \<noteq> JUndefined"
          "JStr (ascii ''9007199254740993'') \<noteq> JUndefined"
    by (simp_all add: ascii_def)
  have w: "walk no_config (price_payload (JStr s))
             [ascii ''call'', ascii ''agreements'', ascii ''price''] = Inr (JStr s)" for s
    by (rule walk3_resolves [OF price_payload_price])
       (simp_all add: key_not_length webhook_name not_call)
  show ?thesis
    by (simp add: lead_price_field w price_transform_string n p1 p2 p3 kept_def)
qed

subsection \<open>The custom fields\<close>

lemma lookup_or_empty:
  assumes "k \<noteq> ascii ''length''"
  shows "lookup (or_empty v) k = lookup v k"
proof (cases "truthy v")
  case True
  then show ?thesis by (simp add: or_empty_def)
next
  case False
  then have "lookup v k = JUndefined"
    using lookup_defined_truthy [OF _ assms] by blast
  with False show ?thesis by (simp add: or_empty_def lookup_def)
qed

lemma more_keys_not_length:
  "ascii ''dadataPhoneInfo'' \<noteq> ascii ''length''" "ascii ''duration'' \<noteq> ascii ''length''"
  "ascii ''startedAt'' \<noteq> ascii ''length''" "ascii ''recordUrl'' \<noteq> ascii ''length''"
  by (simp_all add: ascii_def)

lemma phone_entry_string:
  assumes "filter is_digit s \<noteq> []"
  shows "phone_entry (JObj [(ascii ''phone'', JStr s)]) =
           Inr [field_code_entry (ascii ''PHONE'')
                  (JStr (if hd (filter is_digit s) = 55 then ascii ''+'' @ filter is_digit s
                         else ascii ''+7'' @ filter is_digit s))]"
proof -
  have "s \<noteq> []" using assms by auto
  with assms show ?thesis
    by (simp add: phone_entry_def lookup_def Let_def)
qed

lemma phone_entry_cong:
  "lookup c (ascii ''phone'') = lookup c' (ascii ''phone'') \<Longrightarrow> phone_entry c = phone_entry c'"
  by (simp add: phone_entry_def)

text \<open>
  C1 (as amended). When \<open>contact.phone\<close> is a string with at least one digit, the first
  custom field of the contact is the standard field PHONE, and its value is the digits of
  the phone after a \<open>+\<close> when they start with 7, and after \<open>+7\<close> otherwise. The digits
  \<open>79990001234\<close> give \<open>+79990001234\<close>; a leading 8 is not replaced.
\<close>

theorem contact_phone_value:
  assumes "lookup (lookup data (ascii ''contact'')) (ascii ''phone'') = JStr s"
    and "filter is_digit s \<noteq> []"
  shows "\<exists>others.
           map_of (fst (applyMapping H data (contactMapping H))) (ascii ''custom_fields_values'')
             = Some (JArr (field_code_entry (ascii ''PHONE'')
                             (JStr (if hd (filter is_digit s) = 55
                                    then ascii ''+'' @ filter is_digit s
                                    else ascii ''+7'' @ filter is_digit s)) # others))"
proof -
  let ?ct = "lookup data (ascii ''contact'')"
  have "?ct \<noteq> JUndefined"
    using assms(1) by (auto simp: lookup_nullish)
  then have d: "data \<noteq> JUndefined" "data \<noteq> JNull"
    by (rule nullish_lookup)+
  have "lookup (or_empty ?ct) (ascii ''phone'') = JStr s"
    using assms(1) by (simp only: lookup_or_empty [OF key_not_length(6)])
  moreover have "lookup (JObj [(ascii ''phone'', JStr s)]) (ascii ''phone'') = JStr s"
    by (simp add: lookup_def)
  ultimately have "lookup (or_empty ?ct) (ascii ''phone'')
                     = lookup (JObj [(ascii ''phone'', JStr s)]) (ascii ''phone'')"
    by simp
  then have "phone_entry (or_empty ?ct) = phone_entry (JObj [(ascii ''phone'', JStr s)])"
    by (rule phone_entry_cong)
  then have p: "phone_entry (or_empty ?ct) =
           Inr [field_code_entry (ascii ''PHONE'')
                  (JStr (if hd (filter is_digit s) = 55 then ascii ''+'' @ filter is_digit s
                         else ascii ''+7'' @ filter is_digit s))]"
    using phone_entry_string [OF assms(2)] by simp
  show ?thesis
    unfolding contact_custom_fields_field contactMapping_custom_fields_values_transform_def
    using d by (simp add: js_get_def p kept_def Let_def)
qed

theorem contact_phone_value_witness:
  "\<exists>others.
     map_of (fst (applyMapping no_config sample_payload (contactMapping no_config)))
       (ascii ''custom_fields_values'')
       = Some (JArr (field_code_entry (ascii ''PHONE'') (JStr (ascii ''+79990001234'')) # others))"
proof -
  have h1: "lookup (lookup sample_payload (ascii ''contact'')) (ascii ''phone'')
              = JStr (ascii ''79990001234'')"
    by (simp add: sample_payload_def lookup_def)
  have f: "filter is_digit (ascii ''79990001234'') = ascii ''79990001234''"
    by (simp add: ascii_def is_digit_def)
  have h2: "filter is_digit (ascii ''79990001234'') \<noteq> []"
    unfolding f by (simp add: ascii_def)
  have v: "(if hd (ascii ''79990001234'') = 55 then ascii ''+'' @ ascii ''79990001234''
            else ascii ''+7'' @ ascii ''79990001234'') = ascii ''+79990001234''"
    by (simp add: ascii_def)
  from contact_phone_value [OF h1 h2, of no_config] show ?thesis
    unfolding f v .
qed

theorem contact_phone_leading_8_counterexample:
  "lookup (lookup eight_payload (ascii ''contact'')) (ascii ''phone'') = JStr (ascii ''89990001234'')
   \<and> map_of (fst (applyMapping no_config eight_payload (contactMapping no_config)))
        (ascii ''custom_fields_values'')
       = Some (JArr [field_code_entry (ascii ''PHONE'') (JStr (ascii ''+789990001234''))])
   \<and> ascii ''+789990001234'' \<noteq> ascii ''+79990001234''"
  by (simp add: eval_defs sample_defs)








subsection \<open>Creating the lead without a pipeline\<close>

text \<open>The static value of \<open>pipeline_id\<close> is read from the environment when the module
  \<open>mapping.js\<close> is loaded. The first variant refuses to build a lead when the
  identifier of the pipeline was missing then.\<close>

lemma createLeadInAmoCRM_requires_pipeline:
  assumes "env_or_null H (ascii ''AMOCRM_PIPELINE_ID'') = JNull"
  shows "\<exists>e. createLeadInAmoCRM H data contactId = Inl e"
    and "getAmoCRMBaseUrl H = Inr b \<Longrightarrow> getAmoCRMToken H = Inr t
         \<Longrightarrow> truthy (lookup (JObj (fst (applyMapping H data (leadMapping H)))) (ascii ''name''))
         \<Longrightarrow> createLeadInAmoCRM H data contactId = Inl PipelineIdNotSet"
proof -
  from assms have "map_of (fst (applyMapping H data (leadMapping H))) (ascii ''pipeline_id'') = None"
    by (simp add: lead_pipeline_field kept_def)
  then have p: "\<not> truthy (lookup (JObj (fst (applyMapping H data (leadMapping H)))) (ascii ''pipeline_id''))"
    by (simp add: lookup_def)
  show "\<exists>e. createLeadInAmoCRM H data contactId = Inl e"
    unfolding createLeadInAmoCRM_def Let_def using p
    by (simp split: sum.split)
  show "createLeadInAmoCRM H data contactId = Inl PipelineIdNotSet"
    if "getAmoCRMBaseUrl H = Inr b" "getAmoCRMToken H = Inr t"
       "truthy (lookup (JObj (fst (applyMapping H data (leadMapping H)))) (ascii ''name''))"
    unfolding createLeadInAmoCRM_def Let_def using p that
    by simp
qed

text \<open>The second variant never looks at the pipeline: whenever the subdomain and the token
  are configured, it issues the request, and without the identifier of the pipeline the
  lead of that request has no \<open>pipeline_id\<close>.\<close>

lemma createLeadInAmoCRM_part_001_never_checks:
  assumes "getAmoCRMBaseUrl_part_001 H = Inr b" and "getAmoCRMToken H = Inr t"
    and "env_or_null H (ascii ''AMOCRM_PIPELINE_ID'') = JNull"
  shows "\<exists>r fs. createLeadInAmoCRM_part_001 H data contactId = Inr r
                \<and> body r = JArr [JObj fs]
                \<and> map_of fs (ascii ''pipeline_id'') = None"
proof -
  from assms(3) have p: "map_of (fst (applyMapping H data (leadMapping H))) (ascii ''pipeline_id'') = None"
    by (simp add: lead_pipeline_field kept_def)
  have k: "ascii ''contacts_id'' \<noteq> ascii ''pipeline_id''"
    by (simp add: ascii_def)
  show ?thesis
    unfolding createLeadInAmoCRM_part_001_def Let_def
    using assms(1,2) p k by (simp add: update_conv' del: AList.update.simps)
qed

text \<open>Both variants require \<open>mapping.js\<close> before they call \<open>dotenv.config()\<close>: an
  identifier of the pipeline that is written in the file \<open>.env\<close> only comes too late for
  the static value, and the first variant stops with the configuration error.\<close>

lemma createLeadInAmoCRM_pipeline_from_dotenv:
  "env_set dotenv_pipeline_host (ascii ''AMOCRM_PIPELINE_ID'')
   \<and> createLeadInAmoCRM dotenv_pipeline_host sample_payload JNull = Inl PipelineIdNotSet"
  by (simp add: eval_defs server_defs sample_defs)

text \<open>
  C6. Without the identifier of the pipeline, the lead must not be submitted. The second
  variant of the server has no such check: with the subdomain and the token configured
  and no pipeline, neither when the module was loaded nor when the delivery is handled,
  it calls \<open>axios.post\<close> with a lead that has a name and no
  \<open>pipeline_id\<close>. The first variant stops with the configuration error on the same input.
\<close>

theorem createLeadInAmoCRM_part_001_submits_without_pipeline:
  "\<not> env_set no_pipeline_host (ascii ''AMOCRM_PIPELINE_ID'')
   \<and> env_at_load no_pipeline_host (ascii ''AMOCRM_PIPELINE_ID'') = None
   \<and> createLeadInAmoCRM_part_001 no_pipeline_host sample_payload JNull
       = Inr \<lparr>url = ascii ''https://mycompany.amocrm.ru/api/v4/leads'',
              body = JArr [JObj [(ascii ''name'', JStr (lit_lead @ ascii '': 79990001234''))]],
              bearer = ascii ''secret''\<rparr>
   \<and> createLeadInAmoCRM no_pipeline_host sample_payload JNull = Inl PipelineIdNotSet"
  by (simp add: eval_defs server_defs sample_defs)

end
